theory Spec2Isabelle
  imports Complex_Main "HOL-Library.AList"
begin

section \<open>JavaScript values\<close>

text \<open>
  Numbers that hold millisecond timestamps are integers (\<open>Date.now()\<close> and the engine's
  \<open>currentTime\<close>, which advances by 16); counters are naturals; trust and emotion values
  are reals.
  Every read of \<open>Date.now()\<close> is an explicit argument \<open>dn\<close> of the operation that reads it,
  separate from the simulation time \<open>now\<close> that the tick methods receive.

  An optional field is an \<open>option\<close>. The source tests optional fields by truthiness:
  \<open>undefined\<close>, the empty string and the number 0 are all falsy.
\<close>

definition truthy_str :: "string option \<Rightarrow> bool" where
  "truthy_str s = (case s of None \<Rightarrow> False | Some t \<Rightarrow> t \<noteq> [])"

definition truthy_num :: "int option \<Rightarrow> bool" where
  "truthy_num n = (case n of None \<Rightarrow> False | Some t \<Rightarrow> t \<noteq> 0)"

text \<open>
  The source computes coordinates, distances and memory scores in IEEE doubles. The
  operations it performs on them are parameters of the model: an \<open>arith\<close> gives the result
  of each addition, subtraction, multiplication, division and square root, of the comparison
  \<open><\<close>, and the values of the literals \<open>0.1\<close> and \<open>0.016\<close>. Nothing is assumed of them (the
  reals that stand for \<open>Infinity\<close> and \<open>NaN\<close> are immaterial), so a statement proved for
  every \<open>ar\<close> holds of the doubles of the source. \<open>exact\<close> is the arithmetic of the real
  numbers, without rounding; a statement about \<open>exact\<close> is about that idealisation.
\<close>

record arith =
  fadd :: "real \<Rightarrow> real \<Rightarrow> real"
  fsub :: "real \<Rightarrow> real \<Rightarrow> real"
  fmul :: "real \<Rightarrow> real \<Rightarrow> real"
  fdiv :: "real \<Rightarrow> real \<Rightarrow> real"
  fsqrt :: "real \<Rightarrow> real"
  fless :: "real \<Rightarrow> real \<Rightarrow> bool"
  lit_0_1 :: real
  lit_0_016 :: real

definition exact :: arith where
  "exact = \<lparr> fadd = (+), fsub = (-), fmul = (*), fdiv = (/), fsqrt = sqrt, fless = (<),
             lit_0_1 = 0.1, lit_0_016 = 0.016 \<rparr>"

text \<open>\<open>Number.prototype.toString\<close> on a non-negative integer: its decimal digits.\<close>

fun toString :: "nat \<Rightarrow> string" where
  "toString n =
     (if n < 10 then [''0123456789'' ! n]
      else toString (n div 10) @ [''0123456789'' ! (n mod 10)])"

declare toString.simps [simp del]

section \<open>Conversation (aiTown/conversation.ts)\<close>

datatype conversation_status = Waiting | Active | Ended

record message =
  author :: string
  msg_text :: string
  timestamp :: int
  messageUuid :: string

text \<open>A row of the \<open>messages\<close> table, as \<open>db.insert('messages', ...)\<close> writes it.\<close>

record message_doc =
  doc_conversationId :: string
  doc_messageUuid :: string
  doc_author :: string
  doc_text :: string

record conversation =
  id :: string
  creator :: string
  created :: int
  ended :: "int option"
  lastMessage :: "message option"
  numMessages :: nat
  participants :: "string list"
  invited :: "string list"
  status :: conversation_status
  currentSpeaker :: "string option"
  speakingUntil :: "int option"
  inactivityTimeout :: "int option"

definition Conversation_create :: "int \<Rightarrow> string \<Rightarrow> string \<Rightarrow> string list \<Rightarrow> conversation" where
  "Conversation_create dn i cr invs =
     \<lparr> conversation.id = i, creator = cr, created = dn, ended = None, lastMessage = None,
       numMessages = 0, participants = [cr], invited = filter (\<lambda>p. p \<noteq> cr) invs,
       conversation.status = (if length invs > 1 then Waiting else Active),
       currentSpeaker = None, speakingUntil = None, inactivityTimeout = None \<rparr>"

definition Conversation_archive :: "int \<Rightarrow> conversation \<Rightarrow> conversation" where
  "Conversation_archive dn c = c\<lparr>conversation.status := Ended, ended := Some dn\<rparr>"

definition acceptInvite :: "int \<Rightarrow> conversation \<Rightarrow> string \<Rightarrow> string + conversation" where
  "acceptInvite dn c playerId =
     (if playerId \<notin> set (invited c)
      then Inl (''Player '' @ playerId @ '' was not invited to this conversation'')
      else
        let c1 = c\<lparr>invited := filter (\<lambda>p. p \<noteq> playerId) (invited c),
                    participants := participants c @ [playerId]\<rparr>
        in Inr (if length (invited c1) = 0 \<and> conversation.status c1 = Waiting
                then c1\<lparr>conversation.status := Active, inactivityTimeout := Some (dn + 30000)\<rparr>
                else c1))"

definition rejectInvite :: "int \<Rightarrow> conversation \<Rightarrow> string \<Rightarrow> string + conversation" where
  "rejectInvite dn c playerId =
     (if playerId \<notin> set (invited c)
      then Inl (''Player '' @ playerId @ '' was not invited to this conversation'')
      else
        let c1 = c\<lparr>invited := filter (\<lambda>p. p \<noteq> playerId) (invited c)\<rparr>
        in Inr (if length (invited c1) = 0 \<and> length (participants c1) = 1
                then c1\<lparr>conversation.status := Ended, ended := Some dn\<rparr>
                else c1))"

text \<open>
  \<open>addMessage\<close> throws on the three guards in the source's order; otherwise it inserts the
  message row and updates the conversation. The speaker guard is a truthiness test.
\<close>

definition addMessage ::
  "int \<Rightarrow> message_doc list \<Rightarrow> conversation \<Rightarrow> string \<Rightarrow> string \<Rightarrow> string
     \<Rightarrow> string + (message_doc list \<times> conversation)" where
  "addMessage dn db c au txt uuid =
     (if au \<notin> set (participants c)
      then Inl (''Player '' @ au @ '' is not a participant in this conversation'')
      else if conversation.status c \<noteq> Active
      then Inl ''Conversation is not active''
      else if truthy_str (currentSpeaker c) \<and> currentSpeaker c \<noteq> Some au
      then Inl (''It's '' @ the (currentSpeaker c) @ '''s turn to speak'')
      else Inr
        (db @ [\<lparr> doc_conversationId = conversation.id c, doc_messageUuid = uuid,
                  doc_author = au, doc_text = txt \<rparr>],
         c\<lparr>lastMessage := Some \<lparr> author = au, msg_text = txt, timestamp = dn, messageUuid = uuid \<rparr>,
           numMessages := numMessages c + 1,
           currentSpeaker := Some au,
           speakingUntil := Some (dn + 10000),
           inactivityTimeout := Some (dn + 60000)\<rparr>))"

definition finishSpeaking :: "int \<Rightarrow> conversation \<Rightarrow> string \<Rightarrow> string + conversation" where
  "finishSpeaking dn c playerId =
     (if currentSpeaker c \<noteq> Some playerId
      then Inl (''Player '' @ playerId @ '' is not the current speaker'')
      else Inr (c\<lparr>currentSpeaker := None, speakingUntil := None,
                   inactivityTimeout := Some (dn + 30000)\<rparr>))"

definition leave :: "int \<Rightarrow> conversation \<Rightarrow> string \<Rightarrow> conversation" where
  "leave dn c playerId =
     (let c1 = c\<lparr>participants := filter (\<lambda>p. p \<noteq> playerId) (participants c)\<rparr>;
          c2 = c1\<lparr>invited := filter (\<lambda>p. p \<noteq> playerId) (invited c1)\<rparr>;
          c3 = (if currentSpeaker c2 = Some playerId
                then c2\<lparr>currentSpeaker := None, speakingUntil := None\<rparr> else c2)
      in if length (participants c3) = 0
         then c3\<lparr>conversation.status := Ended, ended := Some dn\<rparr>
         else if length (participants c3) = 1
         then c3\<lparr>conversation.status := Ended, ended := Some dn\<rparr>
         else c3)"

definition Conversation_tick :: "int \<Rightarrow> conversation \<Rightarrow> conversation" where
  "Conversation_tick now c =
     (if conversation.status c \<noteq> Active then c
      else
        let c1 = (if truthy_num (speakingUntil c) \<and> now > the (speakingUntil c)
                  then c\<lparr>currentSpeaker := None, speakingUntil := None\<rparr> else c)
        in if truthy_num (inactivityTimeout c1) \<and> now > the (inactivityTimeout c1)
           then c1\<lparr>conversation.status := Ended, ended := Some now\<rparr>
           else c1)"

definition isFinished :: "conversation \<Rightarrow> bool" where
  "isFinished c = (conversation.status c = Ended)"


section \<open>Player (aiTown/player.ts)\<close>

text \<open>
  A point \<open>{x, y}\<close> is a pair. The status enumeration is shared by players and agents;
  \<open>Sleeping\<close> is a status of agents only (the source's \<open>Player\<close> type has no such value).
  \<open>Agent\<close> repeats every field of \<open>Player\<close> and adds its own, so the agent record extends
  the player record and the methods that the two classes spell out identically
  (\<open>stopWalking\<close>, \<open>leaveConversation\<close>, the walking block of \<open>tick\<close>) are written once,
  over both.
\<close>

type_synonym point = "real \<times> real"

datatype entity_status = Idle | Walking | Talking | Thinking | Sleeping

record pathfinding_state =
  destination :: point
  path :: "point list"
  currentStep :: nat

record player =
  id :: string
  name :: string
  character :: string
  position :: point
  facing :: point
  speed :: real
  conversationId :: "string option"
  status :: entity_status
  lastActivity :: int
  pathfinding :: "pathfinding_state option"

definition Player_create :: "int \<Rightarrow> string \<Rightarrow> string \<Rightarrow> string \<Rightarrow> player" where
  "Player_create dn i nm ch =
     \<lparr> player.id = i, name = nm, character = ch, position = (0, 0), facing = (0, 1),
       speed = 1.0, conversationId = None, player.status = Idle, lastActivity = dn,
       pathfinding = None \<rparr>"

definition Player_walkTo :: "int \<Rightarrow> 'a player_scheme \<Rightarrow> point \<Rightarrow> 'a player_scheme" where
  "Player_walkTo dn p dest =
     p\<lparr>pathfinding := Some \<lparr> destination = dest, path = [dest], currentStep = 0 \<rparr>,
       player.status := Walking, lastActivity := dn\<rparr>"

definition stopWalking :: "int \<Rightarrow> 'a player_scheme \<Rightarrow> 'a player_scheme" where
  "stopWalking dn p = p\<lparr>pathfinding := None, player.status := Idle, lastActivity := dn\<rparr>"

text \<open>The block \<open>// Handle walking\<close> of \<open>Player.tick\<close> and of \<open>Agent.tick\<close>.\<close>

definition handleWalking :: "arith \<Rightarrow> int \<Rightarrow> 'a player_scheme \<Rightarrow> 'a player_scheme" where
  "handleWalking ar dn p =
     (if player.status p = Walking \<and> pathfinding p \<noteq> None then
        let pf = the (pathfinding p) in
        if currentStep pf < length (path pf) then
          let target = path pf ! currentStep pf;
              dx = fsub ar (fst target) (fst (position p));
              dy = fsub ar (snd target) (snd (position p));
              distance = fsqrt ar (fadd ar (fmul ar dx dx) (fmul ar dy dy))
          in if fless ar distance (lit_0_1 ar) then
               let p1 = p\<lparr>pathfinding := Some (pf\<lparr>currentStep := currentStep pf + 1\<rparr>)\<rparr>
               in if currentStep pf + 1 \<ge> length (path pf)
                  then stopWalking dn (p1\<lparr>position := destination pf\<rparr>)
                  else p1
             else
               let moveDistance = fmul ar (speed p) (lit_0_016 ar);
                   moveX = fmul ar (fdiv ar dx distance) moveDistance;
                   moveY = fmul ar (fdiv ar dy distance) moveDistance
               in p\<lparr>position := (fadd ar (fst (position p)) moveX,
                                 fadd ar (snd (position p)) moveY),
                    facing := (fdiv ar dx distance, fdiv ar dy distance)\<rparr>
        else p
      else p)"

definition Player_tick :: "arith \<Rightarrow> int \<Rightarrow> int \<Rightarrow> player \<Rightarrow> player" where
  "Player_tick ar dn now p = (handleWalking ar dn p)\<lparr>lastActivity := now\<rparr>"

definition Player_joinConversation :: "int \<Rightarrow> player \<Rightarrow> string \<Rightarrow> player" where
  "Player_joinConversation dn p cid =
     (stopWalking dn (p\<lparr>conversationId := Some cid, player.status := Talking\<rparr>))
       \<lparr>lastActivity := dn\<rparr>"

definition leaveConversation :: "int \<Rightarrow> 'a player_scheme \<Rightarrow> 'a player_scheme" where
  "leaveConversation dn p =
     p\<lparr>conversationId := None, player.status := Idle, lastActivity := dn\<rparr>"

section \<open>Agent (aiTown/agent.ts)\<close>

record reputation_entry =
  rep_timestamp :: int
  rep_action :: string
  rep_impact :: real
  rep_context :: string

record social_connection =
  agentId :: string
  trustLevel :: real
  interactionCount :: nat
  lastInteraction :: int

record goal =
  goal_type :: string
  goal_target :: "string option"
  goal_priority :: real
  goal_deadline :: "int option"

record emotional_state =
  happiness :: real
  stress :: real
  energy :: real
  sociability :: real

record agent = player +
  trustScore :: real
  reputationHistory :: "reputation_entry list"
  socialConnections :: "social_connection list"
  currentGoal :: "goal option"
  emotionalState :: emotional_state
  lastWakeUp :: int
  sleepUntil :: "int option"
  memoryImportanceThreshold :: real

text \<open>
  \<open>Agent.create\<close>; \<open>r1\<close> and \<open>r2\<close> are the two draws of \<open>Math.random()\<close>.
\<close>

definition Agent_create :: "int \<Rightarrow> string \<Rightarrow> string \<Rightarrow> string \<Rightarrow> real \<Rightarrow> real \<Rightarrow> agent" where
  "Agent_create dn i nm ch r1 r2 =
     \<lparr> player.id = i, name = nm, character = ch, position = (r1 * 100, r2 * 100),
       facing = (0, 1), speed = 1.0, conversationId = None, player.status = Idle,
       lastActivity = dn, pathfinding = None,
       trustScore = 50.0, reputationHistory = [], socialConnections = [], currentGoal = None,
       emotionalState = \<lparr> happiness = 50.0, stress = 20.0, energy = 80.0, sociability = 60.0 \<rparr>,
       lastWakeUp = dn, sleepUntil = None, memoryImportanceThreshold = 5.0 \<rparr>"

definition updateTrustScore :: "int \<Rightarrow> agent \<Rightarrow> real \<Rightarrow> string \<Rightarrow> string \<Rightarrow> agent" where
  "updateTrustScore dn a delta act ctx =
     (let a1 = a\<lparr>trustScore := max 0 (min 100 (trustScore a + delta))\<rparr>;
          h = reputationHistory a1 @
                [\<lparr> rep_timestamp = dn, rep_action = act, rep_impact = delta, rep_context = ctx \<rparr>];
          a2 = a1\<lparr>reputationHistory := (if length h > 100 then drop (length h - 100) h else h)\<rparr>;
          es = emotionalState a2
      in if delta > 0
         then a2\<lparr>emotionalState :=
                   es\<lparr>happiness := min 100 (happiness es + delta * 0.5),
                      stress := max 0 (stress es - delta * 0.3)\<rparr>\<rparr>
         else a2\<lparr>emotionalState :=
                   es\<lparr>stress := min 100 (stress es + \<bar>delta\<bar> * 0.4),
                      happiness := max 0 (happiness es + delta * 0.3)\<rparr>\<rparr>)"

text \<open>
  \<open>Array.prototype.find\<close> returns the first matching element, and the source mutates that
  element in place: \<open>update_first\<close> rewrites the first element that satisfies the test.
\<close>

fun update_first :: "('a \<Rightarrow> bool) \<Rightarrow> ('a \<Rightarrow> 'a) \<Rightarrow> 'a list \<Rightarrow> 'a list" where
  "update_first P f [] = []"
| "update_first P f (x # xs) = (if P x then f x # xs else x # update_first P f xs)"

definition updateSocialConnection :: "int \<Rightarrow> agent \<Rightarrow> string \<Rightarrow> real \<Rightarrow> agent" where
  "updateSocialConnection dn a aid trustDelta =
     (let conns = (case find (\<lambda>c. agentId c = aid) (socialConnections a) of
                     Some c \<Rightarrow> socialConnections a
                   | None \<Rightarrow> socialConnections a @
                       [\<lparr> agentId = aid, trustLevel = 50.0, interactionCount = 0,
                          lastInteraction = dn \<rparr>]);
          conns' = update_first (\<lambda>c. agentId c = aid)
                     (\<lambda>c. c\<lparr>trustLevel := max 0 (min 100 (trustLevel c + trustDelta)),
                            interactionCount := interactionCount c + 1,
                            lastInteraction := dn\<rparr>) conns;
          es = emotionalState a
      in a\<lparr>socialConnections := conns',
           emotionalState := es\<lparr>sociability := min 100 (sociability es + 1)\<rparr>\<rparr>)"

definition shouldSleep :: "int \<Rightarrow> agent \<Rightarrow> bool" where
  "shouldSleep now a =
     (let hoursSinceWakeUp = real_of_int (now - lastWakeUp a) / (1000 * 60 * 60);
          energyThreshold = 30
      in energy (emotionalState a) < energyThreshold \<or> hoursSinceWakeUp > 16)"

definition goToSleep :: "int \<Rightarrow> agent \<Rightarrow> int \<Rightarrow> agent" where
  "goToSleep dn a duration =
     a\<lparr>player.status := Sleeping, sleepUntil := Some (dn + duration),
       emotionalState := (emotionalState a)\<lparr>energy := min 100 (energy (emotionalState a) + 20)\<rparr>\<rparr>"

definition wakeUp :: "int \<Rightarrow> agent \<Rightarrow> agent" where
  "wakeUp dn a =
     a\<lparr>player.status := Idle, sleepUntil := None, lastWakeUp := dn,
       emotionalState := (emotionalState a)\<lparr>energy := 100,
                            stress := max 0 (stress (emotionalState a) - 20)\<rparr>\<rparr>"


definition Agent_joinConversation :: "int \<Rightarrow> agent \<Rightarrow> string \<Rightarrow> agent" where
  "Agent_joinConversation dn a cid =
     (let a1 = (stopWalking dn (a\<lparr>conversationId := Some cid, player.status := Talking\<rparr>))
                 \<lparr>lastActivity := dn\<rparr>
      in a1\<lparr>emotionalState :=
              (emotionalState a1)\<lparr>sociability := min 100 (sociability (emotionalState a1) + 2)\<rparr>\<rparr>)"

text \<open>
  \<open>Agent.sendMessage\<close>: the parameter \<open>leaveConversation\<close> defaults to \<open>false\<close> when the
  caller passes \<open>undefined\<close>, hence the \<open>option\<close>.
\<close>

definition sendMessage ::
  "int \<Rightarrow> message_doc list \<Rightarrow> agent \<Rightarrow> string \<Rightarrow> string \<Rightarrow> bool option
     \<Rightarrow> string + (message_doc list \<times> agent)" where
  "sendMessage dn db a txt uuid leaveFlag =
     (if \<not> truthy_str (conversationId a)
      then Inl (''Agent '' @ player.id a @ '' is not in a conversation'')
      else
        let db' = db @ [\<lparr> doc_conversationId = the (conversationId a), doc_messageUuid = uuid,
                          doc_author = player.id a, doc_text = txt \<rparr>];
            a1 = a\<lparr>lastActivity := dn\<rparr>
        in Inr (db', if (case leaveFlag of None \<Rightarrow> False | Some b \<Rightarrow> b)
                     then leaveConversation dn a1 else a1))"

definition Agent_tick :: "arith \<Rightarrow> int \<Rightarrow> int \<Rightarrow> agent \<Rightarrow> agent" where
  "Agent_tick ar dn now a =
     (if player.status a = Sleeping \<and> \<not> (truthy_num (sleepUntil a) \<and> now \<ge> the (sleepUntil a))
      then a
      else
        let a1 = (if player.status a = Sleeping then wakeUp dn a else a)
        in if shouldSleep now a1 then goToSleep dn a1 (8 * 60 * 60 * 1000)
           else
             let a2 = handleWalking ar dn a1;
                 es = emotionalState a2;
                 a3 = a2\<lparr>emotionalState := es\<lparr>energy := min 100 (energy es + 0.1),
                                                stress := max 0 (stress es - 0.05)\<rparr>\<rparr>;
                 timeSinceActivity = now - lastActivity a3;
                 a4 = (if timeSinceActivity > 60000
                       then a3\<lparr>emotionalState :=
                                 (emotionalState a3)\<lparr>sociability :=
                                    max 0 (sociability (emotionalState a3) - 0.1)\<rparr>\<rparr>
                       else a3)
             in a4\<lparr>lastActivity := now\<rparr>)"


section \<open>World (aiTown/world.ts)\<close>

text \<open>
  A JavaScript \<open>Map\<close> keeps its entries in insertion order: it is an association list, read
  with \<open>map_of\<close>, written with \<open>AList.update\<close> (which overwrites an existing key in place
  and appends a new one) and \<open>AList.delete\<close>. Entities are objects shared by reference, so a
  field assignment on an entity fetched from a map is an update of the map's entry.
  The archive tables that \<open>save\<close> and \<open>archive\<close> write are not part of the in-memory world
  and are left out.
\<close>

record world =
  nextId :: nat
  lastViewed :: int
  players :: "(string \<times> player) list"
  agents :: "(string \<times> agent) list"
  conversations :: "(string \<times> conversation) list"

definition allocId :: "world \<Rightarrow> string \<times> world" where
  "allocId w = (toString (nextId w), w\<lparr>nextId := nextId w + 1\<rparr>)"

text \<open>
  \<open>this.players.get(i) || this.agents.get(i)\<close>: the player if there is one, else the agent.
  \<open>entityConversationId\<close> reads the \<open>conversationId\<close> of that entity and
  \<open>setConversationId\<close> assigns it.
\<close>

definition entityConversationId :: "world \<Rightarrow> string \<Rightarrow> string option option" where
  "entityConversationId w i =
     (case map_of (players w) i of
        Some p \<Rightarrow> Some (conversationId p)
      | None \<Rightarrow> map_option conversationId (map_of (agents w) i))"

definition entityStatus :: "world \<Rightarrow> string \<Rightarrow> entity_status option" where
  "entityStatus w i =
     (case map_of (players w) i of
        Some p \<Rightarrow> Some (player.status p)
      | None \<Rightarrow> map_option player.status (map_of (agents w) i))"

definition setConversationId :: "string \<Rightarrow> string option \<Rightarrow> world \<Rightarrow> world" where
  "setConversationId i v w =
     (case map_of (players w) i of
        Some p \<Rightarrow> w\<lparr>players := AList.update i (p\<lparr>conversationId := v\<rparr>) (players w)\<rparr>
      | None \<Rightarrow>
          (case map_of (agents w) i of
             Some a \<Rightarrow> w\<lparr>agents := AList.update i (a\<lparr>conversationId := v\<rparr>) (agents w)\<rparr>
           | None \<Rightarrow> w))"

text \<open>
  \<open>addPlayer\<close>: the \<open>description\<close> argument only goes into the \<open>playerDescriptions\<close> table
  and is left out with it.
\<close>

definition addPlayer :: "int \<Rightarrow> world \<Rightarrow> string \<Rightarrow> string \<Rightarrow> world \<times> player" where
  "addPlayer dn w nm ch =
     (let (playerId, w1) = allocId w;
          p = Player_create dn playerId nm ch
      in (w1\<lparr>players := AList.update playerId p (players w1)\<rparr>, p))"

definition startConversation ::
  "int \<Rightarrow> world \<Rightarrow> string \<Rightarrow> string \<Rightarrow> string + (world \<times> conversation)" where
  "startConversation dn w creatorId inviteeId =
     (case (entityConversationId w creatorId, entityConversationId w inviteeId) of
        (Some creatorConv, Some inviteeConv) \<Rightarrow>
          if truthy_str creatorConv \<or> truthy_str inviteeConv
          then Inl ''One or both participants are already in a conversation''
          else
            let (cid, w1) = allocId w;
                conv = Conversation_create dn cid creatorId [creatorId, inviteeId];
                w2 = w1\<lparr>conversations := AList.update cid conv (conversations w1)\<rparr>;
                w3 = setConversationId creatorId (Some cid) w2;
                w4 = setConversationId inviteeId (Some cid) w3
            in Inr (w4, conv)
      | _ \<Rightarrow> Inl ''One or both participants not found'')"

definition endConversation :: "int \<Rightarrow> world \<Rightarrow> string \<Rightarrow> world" where
  "endConversation dn w cid =
     (case map_of (conversations w) cid of
        None \<Rightarrow> w
      | Some conv \<Rightarrow>
          let w1 = fold (\<lambda>participantId. setConversationId participantId None)
                     (participants conv) w
          in w1\<lparr>conversations := AList.delete cid (conversations w1)\<rparr>)"

text \<open>
  One round of the loop over \<open>this.conversations.values()\<close> in \<open>World.tick\<close>: the entry is
  ticked in place and, when finished, ended under its own \<open>id\<close>. The loop runs over the keys
  present when it starts and skips an entry that has been deleted meanwhile, as the iterator
  of a \<open>Map\<close> does.
\<close>

definition tickConversation :: "int \<Rightarrow> int \<Rightarrow> string \<Rightarrow> world \<Rightarrow> world" where
  "tickConversation dn now k w =
     (case map_of (conversations w) k of
        None \<Rightarrow> w
      | Some c \<Rightarrow>
          let c' = Conversation_tick now c;
              w' = w\<lparr>conversations := AList.update k c' (conversations w)\<rparr>
          in if isFinished c' then endConversation dn w' (conversation.id c') else w')"

definition World_tick :: "arith \<Rightarrow> int \<Rightarrow> int \<Rightarrow> world \<Rightarrow> world" where
  "World_tick ar dn now w =
     (let w1 = w\<lparr>players := map (\<lambda>(k, p). (k, Player_tick ar dn now p)) (players w)\<rparr>;
          w2 = w1\<lparr>agents := map (\<lambda>(k, a). (k, Agent_tick ar dn now a)) (agents w1)\<rparr>;
          w3 = fold (tickConversation dn now) (map fst (conversations w2)) w2
      in w3\<lparr>lastViewed := now\<rparr>)"

text \<open>
  The maps of a world are filled by \<open>set(entity.id, entity)\<close> only: keys are distinct and the
  key of a conversation is its \<open>id\<close>.
\<close>

definition wf_conversations :: "world \<Rightarrow> bool" where
  "wf_conversations w =
     (distinct (map fst (conversations w)) \<and>
      list_all (\<lambda>(k, c). conversation.id c = k) (conversations w))"

section \<open>Game (aiTown/game.ts) and the engine (engine/abstractGame.ts, aiTown/main.ts)\<close>

text \<open>
  \<open>handleLeaveConversation\<close> and \<open>handleAgentSendMessage\<close> of \<open>Game\<close>, on the world and the
  \<open>messages\<close> table. The value returned to the caller on success is not modelled.
\<close>

definition handleLeaveConversation ::
  "int \<Rightarrow> world \<Rightarrow> string \<Rightarrow> string \<Rightarrow> string + world" where
  "handleLeaveConversation dn w playerId cid =
     (case map_of (conversations w) cid of
        None \<Rightarrow> Inl (''Conversation '' @ cid @ '' not found'')
      | Some c \<Rightarrow>
          Inr (w\<lparr>conversations := AList.update cid (leave dn c playerId) (conversations w)\<rparr>))"

definition handleAgentSendMessage ::
  "int \<Rightarrow> message_doc list \<Rightarrow> world \<Rightarrow> string \<Rightarrow> string \<Rightarrow> string \<Rightarrow> bool option
     \<Rightarrow> string + (message_doc list \<times> world)" where
  "handleAgentSendMessage dn db w aid txt uuid leaveFlag =
     (case map_of (agents w) aid of
        None \<Rightarrow> Inl (''Agent '' @ aid @ '' not found'')
      | Some a \<Rightarrow>
          (case sendMessage dn db a txt uuid leaveFlag of
             Inl e \<Rightarrow> Inl e
           | Inr (db', a') \<Rightarrow> Inr (db', w\<lparr>agents := AList.update aid a' (agents w)\<rparr>)))"


subsection \<open>Processing one input\<close>

text \<open>
  \<open>AbstractGame\<close> is generic in the handler: \<open>handleInput\<close> is a parameter here too. It
  takes the world and the engine row it may patch (\<open>stop\<close>, \<open>start\<close>, \<open>restart\<close>) and
  returns them with either the value it returns or what it throws. The \<open>parse\<close> method of a
  validator belongs to the Convex library and is a parameter as well: \<open>parse nm args\<close> holds
  when the validator registered under \<open>nm\<close> accepts \<open>args\<close> without throwing.
\<close>

datatype thrown = Error string | NonError

record 'v process_result =
  success :: bool
  result :: "'v option"
  error :: "string option"

record engine =
  currentTime :: "int option"
  lastStepTs :: "int option"
  processedInputNumber :: "int option"
  running :: bool
  generationNumber :: nat

definition Game_inputValidators :: "string list" where
  "Game_inputValidators =
     [''stop'', ''start'', ''restart'', ''join'', ''leave'', ''sendMessage'',
      ''startConversation'', ''acceptInvite'', ''rejectInvite'', ''leaveConversation'',
      ''finishSpeaking'', ''walkTo'', ''agentSendMessage'', ''agentWakeUp'']"

definition validateInput :: "(string \<Rightarrow> 'a \<Rightarrow> bool) \<Rightarrow> string \<Rightarrow> 'a \<Rightarrow> bool" where
  "validateInput parse nm args = (nm \<in> set Game_inputValidators \<and> parse nm args)"

type_synonym ('a, 'v) handler =
  "world \<times> engine \<Rightarrow> string \<Rightarrow> 'a \<Rightarrow> (world \<times> engine) \<times> (thrown + 'v)"

definition processInput ::
  "(string \<Rightarrow> 'a \<Rightarrow> bool) \<Rightarrow> ('a, 'v) handler \<Rightarrow> world \<times> engine \<Rightarrow> string \<times> 'a
     \<Rightarrow> (world \<times> engine) \<times> 'v process_result" where
  "processInput parse handleInput st inp =
     (if \<not> validateInput parse (fst inp) (snd inp)
      then (st, \<lparr> success = False, result = None, error = Some ''Input validation failed'' \<rparr>)
      else
        (case handleInput st (fst inp) (snd inp) of
           (st', Inr v) \<Rightarrow> (st', \<lparr> success = True, result = Some v, error = None \<rparr>)
         | (st', Inl (Error errorMessage)) \<Rightarrow>
             (st', \<lparr> success = False, result = None, error = Some errorMessage \<rparr>)
         | (st', Inl NonError) \<Rightarrow>
             (st', \<lparr> success = False, result = None, error = Some ''Unknown error'' \<rparr>)))"

subsection \<open>One step\<close>

definition Game_now :: "engine \<Rightarrow> int" where
  "Game_now e = (if truthy_num (currentTime e) then the (currentTime e) else 0)"

text \<open>
  \<open>Game.tick\<close>. \<open>load\<close> builds the world from the world row alone (\<open>new World(worldDoc)\<close>,
  whose three maps start empty) and \<open>save\<close> writes \<open>nextId\<close> and \<open>lastViewed\<close> back.
  \<open>truthy\<close> is JavaScript's truthiness on handler results. The timing update uses the
  engine as it was loaded, \<open>e0\<close>.
\<close>

definition Game_tick ::
  "arith \<Rightarrow> (string \<Rightarrow> 'a \<Rightarrow> bool) \<Rightarrow> ('a, 'v) handler \<Rightarrow> ('v \<Rightarrow> bool) \<Rightarrow> int \<Rightarrow> engine
     \<Rightarrow> nat \<times> int \<Rightarrow> (string \<times> 'a) list \<Rightarrow> engine \<times> (nat \<times> int) \<times> 'v list option" where
  "Game_tick ar parse handleInput truthy dn e0 worldDoc inps =
     (let w0 = \<lparr> nextId = fst worldDoc, lastViewed = snd worldDoc,
                 players = [], agents = [], conversations = [] \<rparr>;
          ((w1, e1), outputs) =
             fold (\<lambda>inp (st, outs).
                     let (st', r) = processInput parse handleInput st inp
                     in (st', if success r \<and> (case result r of None \<Rightarrow> False | Some v \<Rightarrow> truthy v)
                              then outs @ [the (result r)] else outs))
                  inps ((w0, e0), []);
          w2 = World_tick ar dn (Game_now e0) w1;
          e2 = e1\<lparr>lastStepTs := Some dn, currentTime := Some (Game_now e0 + 16)\<rparr>
      in (e2, (nextId w2, lastViewed w2), if length outputs > 0 then Some outputs else None))"

text \<open>
  The \<open>tick\<close> mutation of \<open>aiTown/main.ts\<close> on the rows it touches: the engine row, the world
  row found through \<open>worldStatus\<close>, and the \<open>inputs\<close> table of this engine.
  \<open>{kind: 'ok', value}\<close> is \<open>RvOk\<close>, with \<open>None\<close> for \<open>null\<close>; \<open>{kind: 'error', message}\<close>
  is \<open>RvError\<close>.
\<close>

datatype 'v return_value = RvOk "'v list option" | RvError string

record ('a, 'v) input_doc =
  input_id :: nat
  number :: int
  in_name :: string
  in_args :: 'a
  returnValue :: "'v return_value option"

record ('a, 'v) engine_db =
  engineRow :: "engine option"
  worldRow :: "(nat \<times> int) option"
  inputs :: "('a, 'v) input_doc list"

datatype 'v tick_result =
    Skipped
  | Stepped (processed: nat) (outputs: "'v list option") (rescheduled: bool)

definition tick ::
  "arith \<Rightarrow> (string \<Rightarrow> 'a \<Rightarrow> bool) \<Rightarrow> ('a, 'v) handler \<Rightarrow> ('v \<Rightarrow> bool) \<Rightarrow> int
     \<Rightarrow> ('a, 'v) engine_db \<Rightarrow> string + (('a, 'v) engine_db \<times> 'v tick_result)" where
  "tick ar parse handleInput truthy dn db =
     (case engineRow db of
        None \<Rightarrow> Inl ''Engine not found''
      | Some e \<Rightarrow>
          if \<not> running e then Inr (db, Skipped)
          else
            let lastProcessed = (if truthy_num (processedInputNumber e)
                                  then the (processedInputNumber e) else - 1);
                batch = take 100 (sort_key number
                          (filter (\<lambda>i. number i > lastProcessed) (inputs db)))
            in (case worldRow db of
                  None \<Rightarrow> Inl ''No world found for engine''
                | Some worldDoc \<Rightarrow>
                    let (e1, worldDoc', outs) =
                          Game_tick ar parse handleInput truthy dn e worldDoc
                            (map (\<lambda>i. (in_name i, in_args i)) batch);
                        e2 = (if length batch > 0
                              then e1\<lparr>processedInputNumber := Some (number (last batch))\<rparr>
                              else e1);
                        inputs' = map (\<lambda>i. if input_id i \<in> input_id ` set batch
                                            then i\<lparr>returnValue := Some (RvOk outs)\<rparr> else i)
                                    (inputs db)
                    in Inr (\<lparr> engineRow = Some e2, worldRow = Some worldDoc', inputs = inputs' \<rparr>,
                            Stepped (length batch) outs (running e2))))"

section \<open>Memory store (agent/memory.ts)\<close>

record memory_doc =
  memory_id :: nat
  playerId :: string
  description :: string
  embeddingId :: nat
  importance :: real
  lastAccess :: int

record memory_db =
  memories :: "memory_doc list"
  memoryEmbeddings :: "nat list"

text \<open>
  The comparator of \<open>cleanupMemories\<close> returns \<open>scoreA - scoreB\<close>, where the score of a memory
  is \<open>importance + (Date.now() - lastAccess) / (30 * 24 * 60 * 60 * 1000)\<close> as the arithmetic
  \<open>ar\<close> computes it. Importances and timestamps are finite numbers, and so are the scores; then
  the sign of the double \<open>scoreA - scoreB\<close> is the order of the two computed scores: the sort
  orders the memories by their computed scores, and two memories whose computed scores are
  equal keep their order (\<open>sort\<close> is stable, as \<open>sort_key\<close> is). One reading \<open>dn\<close> of the clock
  serves the whole sort. A negative \<open>end\<close> of \<open>slice\<close> cannot arise
  here, since the slice is taken only when the count exceeds \<open>maxMemories\<close>.
\<close>

definition cleanupScore :: "arith \<Rightarrow> int \<Rightarrow> memory_doc \<Rightarrow> real" where
  "cleanupScore ar dn m =
     fadd ar (importance m)
       (fdiv ar (fsub ar (real_of_int dn) (real_of_int (lastAccess m)))
          (30 * 24 * 60 * 60 * 1000))"

definition deleteMemory :: "memory_doc \<Rightarrow> memory_db \<Rightarrow> memory_db" where
  "deleteMemory m db =
     db\<lparr>memoryEmbeddings := filter (\<lambda>e. e \<noteq> embeddingId m) (memoryEmbeddings db),
        memories := filter (\<lambda>d. memory_id d \<noteq> memory_id m) (memories db)\<rparr>"

definition toDelete :: "arith \<Rightarrow> int \<Rightarrow> string \<Rightarrow> int \<Rightarrow> memory_db \<Rightarrow> memory_doc list" where
  "toDelete ar dn aid maxMemories db =
     (let allMemories = filter (\<lambda>m. playerId m = aid) (memories db);
          sortedMemories = sort_key (cleanupScore ar dn) allMemories
      in take (nat (int (length allMemories) - maxMemories)) sortedMemories)"

definition cleanupMemories ::
  "arith \<Rightarrow> int \<Rightarrow> string \<Rightarrow> memory_db \<Rightarrow> int \<Rightarrow> real \<Rightarrow> memory_db \<times> nat" where
  "cleanupMemories ar dn aid db maxMemories minImportanceToKeep =
     (let allMemories = filter (\<lambda>m. playerId m = aid) (memories db)
      in if int (length allMemories) \<le> maxMemories then (db, 0)
         else fold (\<lambda>memory (d, deletedCount).
                      if importance memory < minImportanceToKeep
                      then (deleteMemory memory d, deletedCount + 1)
                      else (d, deletedCount))
                (toDelete ar dn aid maxMemories db) (db, 0))"


section \<open>Predicates and fixtures for the properties\<close>

subsection \<open>Conversation membership\<close>

text \<open>
  The membership invariant of an entity in a world: its \<open>conversationId\<close> is set (truthy)
  exactly when its status is \<open>Talking\<close> and the conversation of that id lists the entity
  among its participants.
\<close>

definition entityInvariant :: "world \<Rightarrow> 'a player_scheme \<Rightarrow> bool" where
  "entityInvariant w e =
     (truthy_str (conversationId e) \<longleftrightarrow>
        player.status e = Talking \<and>
        (case conversationId e of
           None \<Rightarrow> False
         | Some cid \<Rightarrow>
             (case map_of (conversations w) cid of
                None \<Rightarrow> False
              | Some c \<Rightarrow> player.id e \<in> set (participants c))))"

definition membershipInvariant :: "world \<Rightarrow> bool" where
  "membershipInvariant w =
     (list_all (\<lambda>(k, p). entityInvariant w p) (players w) \<and>
      list_all (\<lambda>(k, a). entityInvariant w a) (agents w))"

subsection \<open>Trust bounds\<close>

text \<open>
  A call of \<open>updateTrustScore\<close> or \<open>updateSocialConnection\<close>, paired with the value of
  \<open>Date.now()\<close> at the call.
\<close>

datatype trust_call =
    UpdateTrustScore real string string
  | UpdateSocialConnection string real

fun applyTrustCall :: "int \<times> trust_call \<Rightarrow> agent \<Rightarrow> agent" where
  "applyTrustCall (dn, UpdateTrustScore delta act ctx) a = updateTrustScore dn a delta act ctx"
| "applyTrustCall (dn, UpdateSocialConnection aid trustDelta) a =
     updateSocialConnection dn a aid trustDelta"

definition inRange :: "real \<Rightarrow> bool" where
  "inRange v = (0 \<le> v \<and> v \<le> 100)"

definition trustBounds :: "agent \<Rightarrow> bool" where
  "trustBounds a =
     (inRange (trustScore a) \<and>
      list_all (\<lambda>c. inRange (trustLevel c)) (socialConnections a) \<and>
      inRange (happiness (emotionalState a)) \<and> inRange (stress (emotionalState a)) \<and>
      inRange (energy (emotionalState a)) \<and> inRange (sociability (emotionalState a)))"

subsection \<open>Walking\<close>



definition walkingTo :: "'a player_scheme \<Rightarrow> point \<Rightarrow> bool" where
  "walkingTo e d =
     (player.status e = Walking \<and>
      pathfinding e = Some \<lparr> destination = d, path = [d], currentStep = 0 \<rparr>)"


definition sameWalk :: "'a player_scheme \<Rightarrow> 'a player_scheme \<Rightarrow> bool" where
  "sameWalk e e' =
     (position e = position e' \<and> player.status e = player.status e' \<and>
      pathfinding e = pathfinding e' \<and> speed e = speed e')"


subsection \<open>Memories of one agent\<close>

definition memory_count :: "string \<Rightarrow> memory_db \<Rightarrow> int" where
  "memory_count aid db = int (length (filter (\<lambda>m. playerId m = aid) (memories db)))"

subsection \<open>Calls on a conversation\<close>

text \<open>
  The methods of \<open>Conversation\<close> that assign a field (\<open>save\<close>, \<open>serialize\<close> and \<open>isFinished\<close>
  only read), as one type of calls, and the conversation after a call that does not throw.
\<close>

datatype conversation_call =
    Archive
  | AcceptInvite string
  | RejectInvite string
  | AddMessage string string string
  | FinishSpeaking string
  | Leave string
  | Tick int

fun callConversation ::
  "int \<Rightarrow> message_doc list \<Rightarrow> conversation_call \<Rightarrow> conversation \<Rightarrow> string + conversation" where
  "callConversation dn db Archive c = Inr (Conversation_archive dn c)"
| "callConversation dn db (AcceptInvite p) c = acceptInvite dn c p"
| "callConversation dn db (RejectInvite p) c = rejectInvite dn c p"
| "callConversation dn db (AddMessage au body uuid) c =
     (case addMessage dn db c au body uuid of Inl e \<Rightarrow> Inl e | Inr (db', c') \<Rightarrow> Inr c')"
| "callConversation dn db (FinishSpeaking p) c = finishSpeaking dn c p"
| "callConversation dn db (Leave p) c = Inr (leave dn c p)"
| "callConversation dn db (Tick now) c = Inr (Conversation_tick now c)"

subsection \<open>Example states\<close>

text \<open>A world with two players, built by \<open>addPlayer\<close> from the empty world.\<close>

definition empty_world :: world where
  "empty_world = \<lparr> nextId = 0, lastViewed = 0, players = [], agents = [], conversations = [] \<rparr>"

definition two_players :: world where
  "two_players =
     fst (addPlayer 0 (fst (addPlayer 0 empty_world ''Ada'' ''f1'')) ''Bob'' ''f2'')"

text \<open>The conversation of players 0 and 1 once player 1 has accepted the invitation.\<close>

definition active_chat :: conversation where
  "active_chat =
     \<lparr> conversation.id = ''2'', creator = ''0'', created = 1000, ended = None,
       lastMessage = None, numMessages = 0, participants = [''0'', ''1''], invited = [],
       conversation.status = Active, currentSpeaker = None, speakingUntil = None,
       inactivityTimeout = Some 31500 \<rparr>"

text \<open>Agents as \<open>Agent.create\<close> makes them, one drained of energy, one in a conversation.\<close>

definition tired_agent :: agent where
  "tired_agent =
     (Agent_create 1000 ''3'' ''Cy'' ''f3'' 0.25 0.5)
       \<lparr>emotionalState := \<lparr> happiness = 50, stress = 20, energy = 20, sociability = 60 \<rparr>\<rparr>"

definition talking_agent :: agent where
  "talking_agent =
     (Agent_create 1000 ''3'' ''Cy'' ''f3'' 0.25 0.5)
       \<lparr>conversationId := Some ''7'', player.status := Talking\<rparr>"

text \<open>
  A world whose only agent points at conversation 7, which has ended and does not list the
  agent.
\<close>

definition ended_chat :: conversation where
  "ended_chat =
     \<lparr> conversation.id = ''7'', creator = ''5'', created = 1000, ended = Some 4000,
       lastMessage = None, numMessages = 0, participants = [''5''], invited = [],
       conversation.status = Ended, currentSpeaker = Some ''5'', speakingUntil = Some 3000,
       inactivityTimeout = Some 3500 \<rparr>"

definition agent_world :: world where
  "agent_world =
     \<lparr> nextId = 8, lastViewed = 0, players = [], agents = [(''3'', talking_agent)],
       conversations = [(''7'', ended_chat)] \<rparr>"


text \<open>
  An arithmetic that is exact but for sums, which it rounds to the nearest multiple of 1/4;
  the doubles from \<open>2^50\<close> to \<open>2^51\<close> are the multiples of 1/4. A player of the default speed
  at \<open>(2^50, 0)\<close>.
\<close>

definition quarter_grid :: arith where
  "quarter_grid = exact\<lparr>fadd := \<lambda>x y. real_of_int (round ((x + y) * 4)) / 4\<rparr>"

definition far_player :: player where
  "far_player = (Player_create 0 ''0'' ''Ada'' ''f1'')\<lparr>position := (1125899906842624, 0)\<rparr>"

definition example_memory :: "nat \<Rightarrow> string \<Rightarrow> real \<Rightarrow> int \<Rightarrow> memory_doc" where
  "example_memory i aid imp la =
     \<lparr> memory_id = i, playerId = aid, description = ''note'', embeddingId = 100 + i,
       importance = imp, lastAccess = la \<rparr>"

text \<open>
  Five memories at the clock reading 7776000000 (90 days): four of agent 3, of which the
  first, the least important, was last read 90 days ago, and one of agent 9.
\<close>

definition example_memories :: memory_db where
  "example_memories =
     \<lparr> memories = [example_memory 1 ''3'' 1 0, example_memory 2 ''3'' 5 7776000000,
                   example_memory 3 ''3'' 2.5 7776000000, example_memory 4 ''9'' 0 0,
                   example_memory 5 ''3'' 3.5 7776000000],
       memoryEmbeddings = [101, 102, 103, 104, 105] \<rparr>"

text \<open>A running engine whose queue holds one command of an unknown name.\<close>

definition bogus_command_db :: "(unit, 'v) engine_db" where
  "bogus_command_db =
     \<lparr> engineRow = Some \<lparr> currentTime = Some 0, lastStepTs = None, processedInputNumber = None,
                          running = True, generationNumber = 0 \<rparr>,
       worldRow = Some (0, 0),
       inputs = [\<lparr> input_id = 1, number = 0, in_name = ''bogus'', in_args = (),
                   returnValue = None \<rparr>] \<rparr>"


section \<open>Shared lemmas\<close>

lemma toString_digit: "n < 10 \<Longrightarrow> toString n = [''0123456789'' ! n]"
  by (simp add: toString.simps)

lemma two_players_eq:
  "two_players = \<lparr> nextId = 2, lastViewed = 0,
      players = [(''0'', Player_create 0 ''0'' ''Ada'' ''f1''),
                 (''1'', Player_create 0 ''1'' ''Bob'' ''f2'')],
      agents = [], conversations = [] \<rparr>"
  by (simp add: two_players_def addPlayer_def allocId_def empty_world_def toString_digit Let_def)

lemma started_eq:
  "startConversation 1000 two_players ''0'' ''1'' =
     Inr (\<lparr> nextId = 3, lastViewed = 0,
            players = [(''0'', (Player_create 0 ''0'' ''Ada'' ''f1'')\<lparr>conversationId := Some ''2''\<rparr>),
                       (''1'', (Player_create 0 ''1'' ''Bob'' ''f2'')\<lparr>conversationId := Some ''2''\<rparr>)],
            agents = [],
            conversations = [(''2'', Conversation_create 1000 ''2'' ''0'' [''0'', ''1''])] \<rparr>,
          Conversation_create 1000 ''2'' ''0'' [''0'', ''1''])"
  by (simp add: two_players_eq startConversation_def entityConversationId_def
      Player_create_def truthy_str_def allocId_def toString_digit setConversationId_def Let_def)

lemma conversations_setConversationId [simp]:
  "conversations (setConversationId i v w) = conversations w"
  by (simp add: setConversationId_def split: option.splits)



section \<open>Conversation lifecycle\<close>

lemma leave_of_created:
  "p = cr \<or> p = iv \<Longrightarrow>
   conversation.status (leave dn' (Conversation_create dn i cr [cr, iv]) p) = Ended"
  by (auto simp add: leave_def Conversation_create_def Let_def)


text \<open>
  C1 (as amended). In a world with two distinct entities, neither of which has a
  \<open>conversationId\<close>, \<open>World.startConversation\<close> succeeds and yields a conversation with
  status \<open>Waiting\<close>, the creator as its only participant and the invitee invited; the
  conversation is stored in the world under its id. If either of the two then leaves, through
  \<open>handleLeaveConversation\<close> and \<open>Conversation.leave\<close>, the conversation has status \<open>Ended\<close>
  at once. Nothing is stated of the entities' \<open>conversationId\<close> fields.
\<close>

theorem startConversation_lifecycle:
  assumes "creatorId \<noteq> inviteeId"
    and "entityConversationId w creatorId = Some cc" and "\<not> truthy_str cc"
    and "entityConversationId w inviteeId = Some ic" and "\<not> truthy_str ic"
  shows "\<exists>w' conv.
      startConversation dn w creatorId inviteeId = Inr (w', conv)
    \<and> conversation.status conv = Waiting
    \<and> participants conv = [creatorId] \<and> invited conv = [inviteeId]
    \<and> map_of (conversations w') (conversation.id conv) = Some conv
    \<and> (\<forall>p dn'. p = creatorId \<or> p = inviteeId \<longrightarrow>
         (\<exists>w'' c''. handleLeaveConversation dn' w' p (conversation.id conv) = Inr w''
            \<and> map_of (conversations w'') (conversation.id conv) = Some c''
            \<and> conversation.status c'' = Ended))"
proof -
  let ?cid = "toString (nextId w)"
  let ?conv = "Conversation_create dn ?cid creatorId [creatorId, inviteeId]"
  let ?w2 = "w\<lparr>nextId := nextId w + 1,
               conversations := AList.update ?cid ?conv (conversations w)\<rparr>"
  let ?w4 = "setConversationId inviteeId (Some ?cid) (setConversationId creatorId (Some ?cid) ?w2)"
  have start: "startConversation dn w creatorId inviteeId = Inr (?w4, ?conv)"
    using assms by (simp add: startConversation_def allocId_def Let_def)
  have cid: "conversation.id ?conv = ?cid" by (simp add: Conversation_create_def)
  have st: "conversation.status ?conv = Waiting" by (simp add: Conversation_create_def)
  have ps: "participants ?conv = [creatorId]" by (simp add: Conversation_create_def)
  have iv: "invited ?conv = [inviteeId]"
    using assms(1) by (auto simp add: Conversation_create_def)
  have look: "map_of (conversations ?w4) ?cid = Some ?conv" by (simp add: update_conv')
  have lv: "\<exists>w'' c''. handleLeaveConversation dn' ?w4 p ?cid = Inr w''
            \<and> map_of (conversations w'') ?cid = Some c''
            \<and> conversation.status c'' = Ended"
    if "p = creatorId \<or> p = inviteeId" for p dn'
    using that look by (simp add: handleLeaveConversation_def update_conv' leave_of_created)
  from start cid st ps iv look lv show ?thesis by (simp del: conversations_setConversationId)
qed


theorem startConversation_lifecycle_witness:
  "''0'' \<noteq> ''1''
   \<and> entityConversationId two_players ''0'' = Some None \<and> \<not> truthy_str None
   \<and> entityConversationId two_players ''1'' = Some None
   \<and> (\<exists>w' conv.
        startConversation 1000 two_players ''0'' ''1'' = Inr (w', conv)
      \<and> conversation.status conv = Waiting
      \<and> participants conv = [''0''] \<and> invited conv = [''1'']
      \<and> map_of (conversations w') (conversation.id conv) = Some conv
      \<and> (\<forall>p dn'. p = ''0'' \<or> p = ''1'' \<longrightarrow>
           (\<exists>w'' c''. handleLeaveConversation dn' w' p (conversation.id conv) = Inr w''
              \<and> map_of (conversations w'') (conversation.id conv) = Some c''
              \<and> conversation.status c'' = Ended)))"
proof -
  have h1: "''0'' \<noteq> ''1''" by simp
  have h2: "entityConversationId two_players ''0'' = Some None"
    by (simp add: two_players_eq entityConversationId_def Player_create_def)
  have h3: "\<not> truthy_str None" by (simp add: truthy_str_def)
  have h4: "entityConversationId two_players ''1'' = Some None"
    by (simp add: two_players_eq entityConversationId_def Player_create_def)
  from startConversation_lifecycle [OF h1 h2 h3 h4 h3, of 1000] h1 h2 h3 h4
  show ?thesis by blast
qed


text \<open>
  The claim as stated fails on the world of two players: the conversation that
  \<open>startConversation\<close> returns is \<open>Waiting\<close>, not \<open>Active\<close>, and after the invitee has left
  the invitee's \<open>conversationId\<close> is still set.
\<close>

theorem startConversation_counterexample:
  "entityConversationId two_players ''0'' = Some None
   \<and> entityConversationId two_players ''1'' = Some None
   \<and> \<not> isl (startConversation 1000 two_players ''0'' ''1'')
   \<and> conversation.status (snd (projr (startConversation 1000 two_players ''0'' ''1''))) = Waiting
   \<and> entityConversationId
        (projr (handleLeaveConversation 2000
                  (fst (projr (startConversation 1000 two_players ''0'' ''1''))) ''1'' ''2''))
        ''1'' = Some (Some ''2'')"
  by (simp add: started_eq)
     (simp add: two_players_eq entityConversationId_def Player_create_def
       Conversation_create_def handleLeaveConversation_def)


section \<open>Result write-back of a step\<close>

lemma bogus_not_validated: "\<not> validateInput parse ''bogus'' args"
  by (simp add: validateInput_def Game_inputValidators_def)

lemma processInput_bogus:
  "processInput parse h st (''bogus'', args) =
     (st, \<lparr> success = False, result = None, error = Some ''Input validation failed'' \<rparr>)"
  by (simp add: processInput_def bogus_not_validated)

lemma World_tick_empty:
  "World_tick ar dn now \<lparr> nextId = n, lastViewed = lv, players = [], agents = [], conversations = [] \<rparr>
     = \<lparr> nextId = n, lastViewed = now, players = [], agents = [], conversations = [] \<rparr>"
  by (simp add: World_tick_def)

lemma Game_tick_bogus:
  "Game_tick ar parse h truthy dn e (n, lv) [(''bogus'', args)] =
     (e\<lparr>lastStepTs := Some dn, currentTime := Some (Game_now e + 16)\<rparr>, (n, Game_now e), None)"
  by (simp add: Game_tick_def processInput_bogus World_tick_empty)

lemma tick_inputs:
  assumes "tick ar parse h truthy dn db = Inr (db', r)"
  shows "\<exists>S outs. inputs db' =
           map (\<lambda>i. if input_id i \<in> S then i\<lparr>returnValue := Some (RvOk outs)\<rparr> else i)
             (inputs db)"
proof (cases "engineRow db")
  case None
  with assms show ?thesis by (simp add: tick_def)
next
  case (Some e)
  show ?thesis
  proof (cases "running e")
    case False
    with assms Some have "db' = db" by (simp add: tick_def)
    then have "inputs db' =
        map (\<lambda>i. if input_id i \<in> {} then i\<lparr>returnValue := Some (RvOk None)\<rparr> else i)
          (inputs db)" by simp
    then show ?thesis by blast
  next
    case True
    let ?lp = "if truthy_num (processedInputNumber e) then the (processedInputNumber e) else - 1"
    let ?batch = "take 100 (sort_key number (filter (\<lambda>i. number i > ?lp) (inputs db)))"
    show ?thesis
    proof (cases "worldRow db")
      case None
      with assms Some True show ?thesis by (simp add: tick_def Let_def)
    next
      case (Some wd)
      obtain e1 wd' outs where g: "Game_tick ar parse h truthy dn e wd
          (map (\<lambda>i. (in_name i, in_args i)) ?batch) = (e1, wd', outs)"
        by (cases "Game_tick ar parse h truthy dn e wd (map (\<lambda>i. (in_name i, in_args i)) ?batch)")
      from assms \<open>engineRow db = Some e\<close> True Some g
      have "inputs db' =
        map (\<lambda>i. if input_id i \<in> input_id ` set ?batch
                  then i\<lparr>returnValue := Some (RvOk outs)\<rparr> else i) (inputs db)"
        by (auto simp add: tick_def Let_def)
      then show ?thesis by blast
    qed
  qed
qed

lemma tick_writes_only_ok:
  assumes "tick ar parse h truthy dn db = Inr (db', r)" and "i' \<in> set (inputs db')"
  shows "i' \<in> set (inputs db) \<or>
         (\<exists>i outs. i \<in> set (inputs db) \<and> i' = i\<lparr>returnValue := Some (RvOk outs)\<rparr>)"
proof -
  from tick_inputs [OF assms(1)] obtain S outs where
    "inputs db' = map (\<lambda>i. if input_id i \<in> S then i\<lparr>returnValue := Some (RvOk outs)\<rparr> else i)
                    (inputs db)" by blast
  with assms(2) show ?thesis by (auto split: if_splits)
qed


text \<open>
  C2. A step over a queue holding one command of an unknown name: \<open>processInput\<close> reports
  the failure (\<open>success = False\<close>, \<open>error = Input validation failed\<close>) and the step goes on,
  but the \<open>tick\<close> mutation then writes \<open>{kind: 'ok', value: null}\<close> into the command's
  \<open>returnValue\<close>, not \<open>{kind: 'error', message}\<close>. By \<open>tick_writes_only_ok\<close> no step ever
  writes an error value, whatever the handler does.
\<close>

theorem failed_command_is_written_ok:
  "snd (processInput parse h st (''bogus'', ())) =
      \<lparr> success = False, result = None, error = Some ''Input validation failed'' \<rparr>
   \<and> tick ar parse h truthy 5000 bogus_command_db =
      Inr (\<lparr> engineRow = Some \<lparr> currentTime = Some 16, lastStepTs = Some 5000,
                                 processedInputNumber = Some 0, running = True,
                                 generationNumber = 0 \<rparr>,
              worldRow = Some (0, 0),
              inputs = [\<lparr> input_id = 1, number = 0, in_name = ''bogus'', in_args = (),
                          returnValue = Some (RvOk None) \<rparr>] \<rparr>,
           Stepped 1 None True)"
  by (simp add: processInput_bogus tick_def bogus_command_db_def truthy_num_def Game_tick_bogus
      Game_now_def)


section \<open>Entity membership\<close>

lemma join_slip: "player.status (Player_joinConversation dn p cid) = Idle"
  by (simp add: Player_joinConversation_def stopWalking_def)


text \<open>
  C3. The membership invariant holds in the world of two idle players and fails after
  \<open>World.startConversation\<close>: player 0 has its \<open>conversationId\<close> set while its status is
  still \<open>Idle\<close>. (\<open>join_slip\<close>: \<open>joinConversation\<close> itself ends in status \<open>Idle\<close>, since
  \<open>stopWalking\<close> runs after the status is set to \<open>Talking\<close>.)
\<close>

theorem startConversation_breaks_membership:
  "membershipInvariant two_players
   \<and> \<not> isl (startConversation 1000 two_players ''0'' ''1'')
   \<and> \<not> membershipInvariant (fst (projr (startConversation 1000 two_players ''0'' ''1'')))
   \<and> entityStatus (fst (projr (startConversation 1000 two_players ''0'' ''1''))) ''0'' = Some Idle
   \<and> entityConversationId (fst (projr (startConversation 1000 two_players ''0'' ''1''))) ''0''
        = Some (Some ''2'')"
  by (simp add: started_eq)
     (simp add: two_players_eq membershipInvariant_def entityInvariant_def Player_create_def
       truthy_str_def entityStatus_def entityConversationId_def)


section \<open>Turn enforcement\<close>

lemma addMessage_fails_iff:
  "isl (addMessage dn db c au txt uuid) \<longleftrightarrow>
     (au \<notin> set (participants c) \<or> conversation.status c \<noteq> Active \<or>
      (truthy_str (currentSpeaker c) \<and> currentSpeaker c \<noteq> Some au))"
  by (simp add: addMessage_def)


text \<open>
  C4. \<open>addMessage\<close> fails exactly when the author is not a participant, or the status is
  not \<open>Active\<close>, or \<open>currentSpeaker\<close> is set (truthy, as the source tests it) to another id.
  Otherwise it succeeds, appends the message row, sets \<open>lastMessage\<close>, increments
  \<open>numMessages\<close>, sets \<open>currentSpeaker\<close> to the author, \<open>speakingUntil\<close> to now + 10 s and
  \<open>inactivityTimeout\<close> to now + 60 s. While a current speaker is set, a message of any other
  id is rejected, also after every \<open>Conversation.tick\<close> that comes no later than
  \<open>speakingUntil\<close>; in particular right after a successful message of a non-empty author id.
  The turn is released by \<open>finishSpeaking\<close> of the author, and by a tick after the 10 seconds
  have lapsed (and before the inactivity timeout): another participant's message then
  succeeds.
\<close>

theorem addMessage_turn_enforcement:
  "(isl (addMessage dn db c au txt uuid) \<longleftrightarrow>
      (au \<notin> set (participants c) \<or> conversation.status c \<noteq> Active \<or>
       (truthy_str (currentSpeaker c) \<and> currentSpeaker c \<noteq> Some au)))
   \<and> (\<not> isl (addMessage dn db c au txt uuid) \<longrightarrow>
        addMessage dn db c au txt uuid =
          Inr (db @ [\<lparr> doc_conversationId = conversation.id c, doc_messageUuid = uuid,
                       doc_author = au, doc_text = txt \<rparr>],
               c\<lparr>lastMessage := Some \<lparr> author = au, msg_text = txt, timestamp = dn,
                                       messageUuid = uuid \<rparr>,
                 numMessages := numMessages c + 1,
                 currentSpeaker := Some au,
                 speakingUntil := Some (dn + 10000),
                 inactivityTimeout := Some (dn + 60000)\<rparr>))
   \<and> (truthy_str (currentSpeaker c) \<and> currentSpeaker c \<noteq> Some other \<and>
        (speakingUntil c = None \<or> now \<le> the (speakingUntil c)) \<longrightarrow>
        isl (addMessage dn db c other txt uuid) \<and>
        isl (addMessage dn db (Conversation_tick now c) other txt uuid))
   \<and> (addMessage dn db c au txt uuid = Inr (db', c') \<and> au \<noteq> [] \<and> other \<noteq> au \<and>
        now \<le> dn + 10000 \<longrightarrow>
        isl (addMessage dn2 db' c' other txt2 uuid2) \<and>
        isl (addMessage dn2 db' (Conversation_tick now c') other txt2 uuid2))
   \<and> (addMessage dn db c au txt uuid = Inr (db', c') \<and> other \<in> set (participants c) \<longrightarrow>
        (\<exists>c''. finishSpeaking dn1 c' au = Inr c'' \<and>
               \<not> isl (addMessage dn2 db' c'' other txt2 uuid2)))
   \<and> (addMessage dn db c au txt uuid = Inr (db', c') \<and> other \<in> set (participants c) \<and>
        dn + 10000 \<noteq> 0 \<and> dn + 10000 < late \<and> late \<le> dn + 60000 \<longrightarrow>
        \<not> isl (addMessage dn2 db' (Conversation_tick late c') other txt2 uuid2))"
proof (intro conjI impI)
  show "isl (addMessage dn db c au txt uuid) \<longleftrightarrow>
      (au \<notin> set (participants c) \<or> conversation.status c \<noteq> Active \<or>
       (truthy_str (currentSpeaker c) \<and> currentSpeaker c \<noteq> Some au))"
    by (rule addMessage_fails_iff)
next
  assume "\<not> isl (addMessage dn db c au txt uuid)"
  then show "addMessage dn db c au txt uuid =
          Inr (db @ [\<lparr> doc_conversationId = conversation.id c, doc_messageUuid = uuid,
                       doc_author = au, doc_text = txt \<rparr>],
               c\<lparr>lastMessage := Some \<lparr> author = au, msg_text = txt, timestamp = dn,
                                       messageUuid = uuid \<rparr>,
                 numMessages := numMessages c + 1,
                 currentSpeaker := Some au,
                 speakingUntil := Some (dn + 10000),
                 inactivityTimeout := Some (dn + 60000)\<rparr>)"
    by (simp add: addMessage_def split: if_splits)
next
  assume h: "truthy_str (currentSpeaker c) \<and> currentSpeaker c \<noteq> Some other \<and>
        (speakingUntil c = None \<or> now \<le> the (speakingUntil c))"
  then show "isl (addMessage dn db c other txt uuid)"
    by (simp add: addMessage_fails_iff)
  from h show "isl (addMessage dn db (Conversation_tick now c) other txt uuid)"
    by (auto simp add: addMessage_fails_iff Conversation_tick_def Let_def truthy_num_def)
next
  assume h: "addMessage dn db c au txt uuid = Inr (db', c') \<and> au \<noteq> [] \<and> other \<noteq> au \<and>
        now \<le> dn + 10000"
  then have c': "currentSpeaker c' = Some au" "speakingUntil c' = Some (dn + 10000)"
    by (auto simp add: addMessage_def split: if_splits)
  with h show "isl (addMessage dn2 db' c' other txt2 uuid2)"
    by (auto simp add: addMessage_fails_iff truthy_str_def)
  from h c' show "isl (addMessage dn2 db' (Conversation_tick now c') other txt2 uuid2)"
    by (auto simp add: addMessage_fails_iff Conversation_tick_def Let_def truthy_num_def truthy_str_def)
next
  assume h: "addMessage dn db c au txt uuid = Inr (db', c') \<and> other \<in> set (participants c)"
  then have c': "currentSpeaker c' = Some au" "conversation.status c' = Active"
    "participants c' = participants c"
    by (auto simp add: addMessage_def split: if_splits)
  with h show "\<exists>c''. finishSpeaking dn1 c' au = Inr c'' \<and>
               \<not> isl (addMessage dn2 db' c'' other txt2 uuid2)"
    by (simp add: finishSpeaking_def addMessage_fails_iff truthy_str_def)
next
  assume h: "addMessage dn db c au txt uuid = Inr (db', c') \<and> other \<in> set (participants c) \<and>
        dn + 10000 \<noteq> 0 \<and> dn + 10000 < late \<and> late \<le> dn + 60000"
  then have c': "conversation.status c' = Active" "participants c' = participants c"
    "speakingUntil c' = Some (dn + 10000)" "inactivityTimeout c' = Some (dn + 60000)"
    by (auto simp add: addMessage_def split: if_splits)
  with h show "\<not> isl (addMessage dn2 db' (Conversation_tick late c') other txt2 uuid2)"
    by (simp add: addMessage_fails_iff Conversation_tick_def Let_def truthy_num_def
        truthy_str_def)
qed


theorem addMessage_turn_enforcement_witness:
  "\<not> isl (addMessage 2000 [] active_chat ''0'' ''hi'' ''u1'')
   \<and> numMessages (snd (projr (addMessage 2000 [] active_chat ''0'' ''hi'' ''u1''))) = 1
   \<and> currentSpeaker (snd (projr (addMessage 2000 [] active_chat ''0'' ''hi'' ''u1''))) = Some ''0''
   \<and> speakingUntil (snd (projr (addMessage 2000 [] active_chat ''0'' ''hi'' ''u1''))) = Some 12000
   \<and> isl (addMessage 2001 (fst (projr (addMessage 2000 [] active_chat ''0'' ''hi'' ''u1'')))
             (snd (projr (addMessage 2000 [] active_chat ''0'' ''hi'' ''u1''))) ''1'' ''hello'' ''u2'')
   \<and> isl (addMessage 2001 (fst (projr (addMessage 2000 [] active_chat ''0'' ''hi'' ''u1'')))
             (Conversation_tick 12000 (snd (projr (addMessage 2000 [] active_chat ''0'' ''hi'' ''u1''))))
             ''1'' ''hello'' ''u2'')
   \<and> \<not> isl (addMessage 2001 (fst (projr (addMessage 2000 [] active_chat ''0'' ''hi'' ''u1'')))
             (projr (finishSpeaking 2500
                (snd (projr (addMessage 2000 [] active_chat ''0'' ''hi'' ''u1''))) ''0''))
             ''1'' ''hello'' ''u2'')
   \<and> \<not> isl (addMessage 2001 (fst (projr (addMessage 2000 [] active_chat ''0'' ''hi'' ''u1'')))
             (Conversation_tick 12001 (snd (projr (addMessage 2000 [] active_chat ''0'' ''hi'' ''u1''))))
             ''1'' ''hello'' ''u2'')"
proof -
  let ?db1 = "[\<lparr> doc_conversationId = ''2'', doc_messageUuid = ''u1'', doc_author = ''0'',
                  doc_text = ''hi'' \<rparr>]"
  let ?c1 = "active_chat\<lparr>lastMessage := Some \<lparr> author = ''0'', msg_text = ''hi'',
                                                timestamp = 2000, messageUuid = ''u1'' \<rparr>,
                          numMessages := numMessages active_chat + 1,
                          currentSpeaker := Some ''0'',
                          speakingUntil := Some (2000 + 10000),
                          inactivityTimeout := Some (2000 + 60000)\<rparr>"
  have ok: "\<not> isl (addMessage 2000 [] active_chat ''0'' ''hi'' ''u1'')"
    by (simp add: addMessage_def active_chat_def truthy_str_def)
  note t = addMessage_turn_enforcement [where dn = 2000 and db = "[]" and c = active_chat
      and au = "''0''" and ?txt = "''hi''" and uuid = "''u1''" and other = "''1''"
      and now = 12000 and db' = ?db1 and c' = ?c1 and ?dn2.0 = 2001 and ?txt2.0 = "''hello''"
      and ?uuid2.0 = "''u2''" and ?dn1.0 = 2500 and late = 12001]
  from t ok have e: "addMessage 2000 [] active_chat ''0'' ''hi'' ''u1'' = Inr (?db1, ?c1)"
    by (simp add: active_chat_def)
  have p: "''0'' \<noteq> ([]::string) \<and> ''1'' \<noteq> ''0'' \<and> (12000::int) \<le> 2000 + 10000
      \<and> ''1'' \<in> set (participants active_chat)
      \<and> (2000::int) + 10000 \<noteq> 0 \<and> (2000::int) + 10000 < 12001 \<and> (12001::int) \<le> 2000 + 60000"
    by (simp add: active_chat_def)
  from t e p have r: "isl (addMessage 2001 ?db1 ?c1 ''1'' ''hello'' ''u2'')
    \<and> isl (addMessage 2001 ?db1 (Conversation_tick 12000 ?c1) ''1'' ''hello'' ''u2'')"
    by blast
  from t e p obtain c2 where fs: "finishSpeaking 2500 ?c1 ''0'' = Inr c2"
    and r2: "\<not> isl (addMessage 2001 ?db1 c2 ''1'' ''hello'' ''u2'')"
    by blast
  from t e p have r3: "\<not> isl (addMessage 2001 ?db1 (Conversation_tick 12001 ?c1) ''1'' ''hello'' ''u2'')"
    by blast
  have f: "numMessages ?c1 = 1" "currentSpeaker ?c1 = Some ''0''" "speakingUntil ?c1 = Some 12000"
    by (simp_all add: active_chat_def)
  from e have pr: "projr (addMessage 2000 [] active_chat ''0'' ''hi'' ''u1'') = (?db1, ?c1)"
    by simp
  from fs have pf: "projr (finishSpeaking 2500 ?c1 ''0'') = c2" by simp
  from ok r r2 r3 f show ?thesis unfolding pr fst_conv snd_conv pf by blast
qed


section \<open>Trust bounds\<close>

lemma inRange_clamp: "inRange (max 0 (min 100 v))"
  by (simp add: inRange_def)

lemma list_all_update_first:
  "list_all Q xs \<Longrightarrow> (\<And>x. Q x \<Longrightarrow> Q (f x)) \<Longrightarrow> list_all Q (update_first P f xs)"
  by (induction xs) auto

lemma trustBounds_updateTrustScore:
  assumes "trustBounds a"
  shows "trustBounds (updateTrustScore dn a delta act ctx)"
proof (cases "delta > 0")
  case True
  with assms show ?thesis
    by (simp add: trustBounds_def updateTrustScore_def Let_def inRange_def)
next
  case False
  with assms show ?thesis
    by (simp add: trustBounds_def updateTrustScore_def Let_def inRange_def)
qed

lemma trustBounds_updateSocialConnection:
  assumes "trustBounds a"
  shows "trustBounds (updateSocialConnection dn a aid trustDelta)"
proof -
  let ?upd = "\<lambda>c. c\<lparr>trustLevel := max 0 (min 100 (trustLevel c + trustDelta)),
                      interactionCount := interactionCount c + 1, lastInteraction := dn\<rparr>"
  have step: "list_all (\<lambda>c. inRange (trustLevel c)) (update_first (\<lambda>c. agentId c = aid) ?upd cs)"
    if "list_all (\<lambda>c. inRange (trustLevel c)) cs" for cs :: "social_connection list"
    using that by (rule list_all_update_first) (simp add: inRange_clamp)
  have fresh: "inRange (trustLevel \<lparr> agentId = aid, trustLevel = 50.0, interactionCount = 0,
                          lastInteraction = dn \<rparr>)"
    by (simp add: inRange_def)
  from assms have conns: "list_all (\<lambda>c. inRange (trustLevel c)) (socialConnections a)"
    by (simp add: trustBounds_def)
  show ?thesis
  proof (cases "find (\<lambda>c. agentId c = aid) (socialConnections a)")
    case None
    from conns fresh have "list_all (\<lambda>c. inRange (trustLevel c))
        (socialConnections a @ [\<lparr> agentId = aid, trustLevel = 50.0, interactionCount = 0,
                          lastInteraction = dn \<rparr>])" by simp
    from step [OF this] assms None show ?thesis
      by (simp add: trustBounds_def updateSocialConnection_def Let_def inRange_def)
  next
    case (Some c)
    from step [OF conns] assms Some show ?thesis
      by (simp add: trustBounds_def updateSocialConnection_def Let_def inRange_def)
  qed
qed

lemma trustBounds_applyTrustCall: "trustBounds a \<Longrightarrow> trustBounds (applyTrustCall call a)"
proof (cases call)
  case (Pair dn c)
  assume "trustBounds a"
  with Pair show ?thesis
    by (cases c) (simp_all add: trustBounds_updateTrustScore trustBounds_updateSocialConnection)
qed


text \<open>
  C5. If an agent's \<open>trustScore\<close>, every \<open>trustLevel\<close> of its \<open>socialConnections\<close> and the
  four fields of its \<open>emotionalState\<close> lie in [0, 100], they still do after any finite
  sequence of \<open>updateTrustScore\<close> and \<open>updateSocialConnection\<close> calls with arbitrary real
  deltas.
\<close>

theorem trust_bounds_preserved:
  "trustBounds a \<Longrightarrow> trustBounds (fold applyTrustCall calls a)"
proof (induction calls arbitrary: a)
  case Nil
  then show ?case by simp
next
  case (Cons call calls)
  from Cons.prems have "trustBounds (applyTrustCall call a)"
    by (rule trustBounds_applyTrustCall)
  then have "trustBounds (fold applyTrustCall calls (applyTrustCall call a))"
    by (rule Cons.IH)
  then show ?case by simp
qed


theorem trust_bounds_preserved_witness:
  "trustBounds (Agent_create 1000 ''3'' ''Cy'' ''f3'' 0.25 0.5)
   \<and> trustBounds
        (fold applyTrustCall
           [(2000, UpdateTrustScore 1000 ''helped'' ''market''),
            (3000, UpdateSocialConnection ''4'' (- 500)),
            (4000, UpdateTrustScore (- 1000) ''lied'' ''market'')]
           (Agent_create 1000 ''3'' ''Cy'' ''f3'' 0.25 0.5))
   \<and> trustScore
        (fold applyTrustCall
           [(2000, UpdateTrustScore 1000 ''helped'' ''market''),
            (3000, UpdateSocialConnection ''4'' (- 500)),
            (4000, UpdateTrustScore (- 1000) ''lied'' ''market'')]
           (Agent_create 1000 ''3'' ''Cy'' ''f3'' 0.25 0.5)) = 0"
proof -
  have b: "trustBounds (Agent_create 1000 ''3'' ''Cy'' ''f3'' 0.25 0.5)"
    by (simp add: trustBounds_def inRange_def Agent_create_def)
  have v: "trustScore
        (fold applyTrustCall
           [(2000, UpdateTrustScore 1000 ''helped'' ''market''),
            (3000, UpdateSocialConnection ''4'' (- 500)),
            (4000, UpdateTrustScore (- 1000) ''lied'' ''market'')]
           (Agent_create 1000 ''3'' ''Cy'' ''f3'' 0.25 0.5)) = 0"
    by (simp add: updateTrustScore_def updateSocialConnection_def Agent_create_def Let_def)
  from trust_bounds_preserved [OF b] b v show ?thesis by blast
qed


section \<open>Sleep cycle\<close>

text \<open>
  C6 (as amended). An awake agent whose energy is below 30 is \<open>Sleeping\<close> after its next
  tick, with \<open>sleepUntil\<close> set to the wall clock of that tick plus 8 hours. A sleeping agent
  is left unchanged by every tick whose \<open>now\<close> is before \<open>sleepUntil\<close>. At a tick whose \<open>now\<close>
  has reached a non-zero \<open>sleepUntil\<close>, and is at most 16 hours ahead of the wall clock
  \<open>Date.now()\<close> read in that tick, the agent becomes \<open>Idle\<close> with energy 100 and \<open>sleepUntil\<close>
  cleared.
\<close>

theorem sleep_cycle:
  "(player.status a \<noteq> Sleeping \<and> energy (emotionalState a) < 30 \<longrightarrow>
      player.status (Agent_tick ar dn now a) = Sleeping \<and>
      sleepUntil (Agent_tick ar dn now a) = Some (dn + 8 * 60 * 60 * 1000))
   \<and> (player.status a = Sleeping \<and> sleepUntil a = Some s \<and> now < s \<longrightarrow>
      Agent_tick ar dn now a = a)
   \<and> (player.status a = Sleeping \<and> sleepUntil a = Some s \<and> s \<noteq> 0 \<and> s \<le> now \<and>
       now - dn \<le> 16 * 60 * 60 * 1000 \<longrightarrow>
      player.status (Agent_tick ar dn now a) = Idle \<and>
      energy (emotionalState (Agent_tick ar dn now a)) = 100 \<and>
      sleepUntil (Agent_tick ar dn now a) = None)"
proof (intro conjI impI)
  assume "player.status a \<noteq> Sleeping \<and> energy (emotionalState a) < 30"
  then show "player.status (Agent_tick ar dn now a) = Sleeping"
    and "sleepUntil (Agent_tick ar dn now a) = Some (dn + 8 * 60 * 60 * 1000)"
    by (simp_all add: Agent_tick_def shouldSleep_def goToSleep_def Let_def)
next
  assume "player.status a = Sleeping \<and> sleepUntil a = Some s \<and> now < s"
  then show "Agent_tick ar dn now a = a"
    by (simp add: Agent_tick_def)
next
  assume h: "player.status a = Sleeping \<and> sleepUntil a = Some s \<and> s \<noteq> 0 \<and> s \<le> now \<and>
       now - dn \<le> 16 * 60 * 60 * 1000"
  then have awake: "\<not> shouldSleep now (wakeUp dn a)"
    by (simp add: shouldSleep_def wakeUp_def Let_def)
  have idle: "handleWalking ar dn (wakeUp dn a) = wakeUp dn a"
    by (simp add: handleWalking_def wakeUp_def)
  from h awake idle show "player.status (Agent_tick ar dn now a) = Idle"
    and "energy (emotionalState (Agent_tick ar dn now a)) = 100"
    and "sleepUntil (Agent_tick ar dn now a) = None"
    by (simp_all add: Agent_tick_def Let_def truthy_num_def wakeUp_def)
qed


theorem sleep_cycle_witness:
  "player.status tired_agent \<noteq> Sleeping \<and> energy (emotionalState tired_agent) < 30
   \<and> player.status (Agent_tick exact 2000 16 tired_agent) = Sleeping
   \<and> sleepUntil (Agent_tick exact 2000 16 tired_agent) = Some 28802000
   \<and> Agent_tick exact 2500 28801999 (Agent_tick exact 2000 16 tired_agent) = Agent_tick exact 2000 16 tired_agent
   \<and> player.status (Agent_tick exact 28803000 28802000 (Agent_tick exact 2000 16 tired_agent)) = Idle
   \<and> energy (emotionalState (Agent_tick exact 28803000 28802000 (Agent_tick exact 2000 16 tired_agent))) = 100"
proof -
  let ?a1 = "Agent_tick exact 2000 16 tired_agent"
  have h1: "player.status tired_agent \<noteq> Sleeping \<and> energy (emotionalState tired_agent) < 30"
    by (simp add: tired_agent_def Agent_create_def)
  from sleep_cycle [where ar = exact and a = tired_agent and dn = 2000 and now = 16] h1
  have s1: "player.status ?a1 = Sleeping" "sleepUntil ?a1 = Some 28802000" by simp_all
  from sleep_cycle [where ar = exact and a = ?a1 and dn = 2500 and now = 28801999 and s = 28802000] s1
  have s2: "Agent_tick exact 2500 28801999 ?a1 = ?a1" by simp
  from sleep_cycle [where ar = exact and a = ?a1 and dn = 28803000 and now = 28802000 and s = 28802000] s1
  have s3: "player.status (Agent_tick exact 28803000 28802000 ?a1) = Idle"
    "energy (emotionalState (Agent_tick exact 28803000 28802000 ?a1)) = 100" by simp_all
  from h1 s1 s2 s3 show ?thesis by simp
qed


text \<open>
  The claim as stated fails when the simulation time runs more than 16 hours ahead of the
  wall clock: \<open>wakeUp\<close> stamps \<open>lastWakeUp\<close> with \<open>Date.now()\<close>, the same tick then finds
  \<open>shouldSleep(now)\<close> true and puts the agent back to sleep.
\<close>

theorem sleep_cycle_counterexample:
  "player.status tired_agent \<noteq> Sleeping \<and> energy (emotionalState tired_agent) < 30
   \<and> player.status (Agent_tick exact 2000 16 tired_agent) = Sleeping
   \<and> sleepUntil (Agent_tick exact 2000 16 tired_agent) = Some 28802000
   \<and> (28802000::int) \<le> 90000000
   \<and> player.status (Agent_tick exact 3000 90000000 (Agent_tick exact 2000 16 tired_agent)) = Sleeping"
  by (simp add: tired_agent_def Agent_create_def Agent_tick_def shouldSleep_def goToSleep_def
      wakeUp_def truthy_num_def Let_def)


section \<open>Pathfinding convergence\<close>

subsection \<open>One tick, in any arithmetic\<close>




lemma sameWalk_walkingTo: "sameWalk e e' \<Longrightarrow> walkingTo e' d \<Longrightarrow> walkingTo e d"
  by (simp add: sameWalk_def walkingTo_def)

lemma sameWalk_Player_tick: "sameWalk (Player_tick ar dn now p) (handleWalking ar dn p)"
  by (simp add: sameWalk_def Player_tick_def)



subsection \<open>Runs of ticks, in any arithmetic\<close>





subsection \<open>The number of ticks, in exact arithmetic\<close>






















text \<open>
  No number of ticks can be stated for every arithmetic. Where sums are rounded to
  multiples of 1/4, a player of speed 1 at \<open>(2^50, 0)\<close> that walks to \<open>(2^50 + 1, 0)\<close>, one
  unit away, stays where it is for ever: the step of 0.016 is rounded away.
\<close>

lemma far_player_step:
  assumes "walkingTo e (1125899906842625, 0)" and "position e = (1125899906842624, 0)"
    and "speed e = 1"
  shows "walkingTo (handleWalking quarter_grid dn e) (1125899906842625, 0)"
    and "position (handleWalking quarter_grid dn e) = (1125899906842624, 0)"
    and "speed (handleWalking quarter_grid dn e) = 1"
  using assms
  by (simp_all add: walkingTo_def handleWalking_def quarter_grid_def exact_def Let_def round_def)

lemma rounded_walk_never_arrives:
  "walkingTo (fold (\<lambda>(dn, now). Player_tick quarter_grid dn now) ts
                (Player_walkTo dn0 far_player (1125899906842625, 0))) (1125899906842625, 0)
   \<and> position (fold (\<lambda>(dn, now). Player_tick quarter_grid dn now) ts
                (Player_walkTo dn0 far_player (1125899906842625, 0))) = (1125899906842624, 0)"
proof -
  let ?d = "(1125899906842625, 0) :: point"
  have run: "walkingTo (fold (\<lambda>(dn, now). Player_tick quarter_grid dn now) ts e) ?d
      \<and> position (fold (\<lambda>(dn, now). Player_tick quarter_grid dn now) ts e) = (1125899906842624, 0)
      \<and> speed (fold (\<lambda>(dn, now). Player_tick quarter_grid dn now) ts e) = 1"
    if "walkingTo e ?d" and "position e = (1125899906842624, 0)" and "speed e = 1"
    for e :: player
    using that
  proof (induction ts arbitrary: e)
    case Nil
    then show ?case by simp
  next
    case (Cons t ts)
    obtain dn now where t: "t = (dn, now)" by (cases t)
    note st = far_player_step [OF Cons.prems, of dn]
    have sw: "sameWalk (Player_tick quarter_grid dn now e) (handleWalking quarter_grid dn e)"
      by (rule sameWalk_Player_tick)
    from sw st(1) have w: "walkingTo (Player_tick quarter_grid dn now e) ?d"
      by (rule sameWalk_walkingTo)
    from sw st(2,3) have ps: "position (Player_tick quarter_grid dn now e) = (1125899906842624, 0)"
      and sp: "speed (Player_tick quarter_grid dn now e) = 1"
      by (simp_all add: sameWalk_def)
    from Cons.IH [OF w ps sp] t show ?case by simp
  qed
  show ?thesis
    using run [of "Player_walkTo dn0 far_player ?d"]
    by (simp add: walkingTo_def Player_walkTo_def far_player_def Player_create_def)
qed


section \<open>Memory cleanup\<close>

lemma fold_cleanup:
  "fold (\<lambda>memory (d, deletedCount).
           if importance memory < mk
           then (deleteMemory memory d, deletedCount + 1)
           else (d, deletedCount)) ds (db, n)
   = (db\<lparr>memoryEmbeddings :=
           filter (\<lambda>e. e \<notin> embeddingId ` set (filter (\<lambda>m. importance m < mk) ds))
             (memoryEmbeddings db),
         memories :=
           filter (\<lambda>d. memory_id d \<notin> memory_id ` set (filter (\<lambda>m. importance m < mk) ds))
             (memories db)\<rparr>,
      n + length (filter (\<lambda>m. importance m < mk) ds))"
proof (induction ds arbitrary: db n)
  case Nil
  then show ?case by simp
next
  case (Cons m ds)
  show ?case
    by (cases "importance m < mk") (simp_all add: Cons.IH deleteMemory_def conj_commute)
qed

lemma toDelete_subset:
  "set (toDelete ar dn aid mx db) \<subseteq> {m \<in> set (memories db). playerId m = aid}"
proof -
  have "set (toDelete ar dn aid mx db)
          \<subseteq> set (sort_key (cleanupScore ar dn) (filter (\<lambda>m. playerId m = aid) (memories db)))"
    unfolding toDelete_def Let_def by (rule set_take_subset)
  then show ?thesis by auto
qed

lemma toDelete_length:
  "length (toDelete ar dn aid mx db)
     = min (nat (int (length (filter (\<lambda>m. playerId m = aid) (memories db))) - mx))
           (length (filter (\<lambda>m. playerId m = aid) (memories db)))"
  by (simp add: toDelete_def Let_def min.commute)

lemma sorted_take_le_drop:
  assumes "sorted (map f xs)" and "a \<in> set (take k xs)" and "b \<in> set (drop k xs)"
  shows "f a \<le> f b"
proof -
  have "sorted (map f (take k xs) @ map f (drop k xs))"
    using assms(1) by (simp flip: map_append)
  with assms(2,3) show ?thesis by (auto simp add: sorted_append)
qed

lemma toDelete_lowest:
  assumes a: "a \<in> set (toDelete ar dn aid mx db)"
    and b: "b \<in> set (memories db)" "playerId b = aid" "b \<notin> set (toDelete ar dn aid mx db)"
  shows "cleanupScore ar dn a \<le> cleanupScore ar dn b"
proof -
  let ?all = "filter (\<lambda>m. playerId m = aid) (memories db)"
  let ?sorted = "sort_key (cleanupScore ar dn) ?all"
  let ?k = "nat (int (length ?all) - mx)"
  from b(1,2) have "b \<in> set ?sorted" by simp
  then have "b \<in> set (take ?k ?sorted) \<union> set (drop ?k ?sorted)"
    by (simp only: set_append [symmetric] append_take_drop_id)
  with b(3) have bd: "b \<in> set (drop ?k ?sorted)" by (simp add: toDelete_def Let_def)
  from a have at: "a \<in> set (take ?k ?sorted)" by (simp add: toDelete_def Let_def)
  have "sorted (map (cleanupScore ar dn) ?sorted)" by (rule sorted_sort_key)
  from sorted_take_le_drop [OF this at bd] show ?thesis .
qed

lemma toDelete_sorted: "sorted (map (cleanupScore ar dn) (toDelete ar dn aid mx db))"
proof -
  let ?sorted = "sort_key (cleanupScore ar dn) (filter (\<lambda>m. playerId m = aid) (memories db))"
  let ?k = "nat (int (length (filter (\<lambda>m. playerId m = aid) (memories db))) - mx)"
  have "sorted (map (cleanupScore ar dn) ?sorted)" by (rule sorted_sort_key)
  then have "sorted (take ?k (map (cleanupScore ar dn) ?sorted))" by (rule sorted_wrt_take)
  then show ?thesis by (simp add: toDelete_def Let_def take_map)
qed

lemma distinct_ids_mem:
  assumes "distinct (map memory_id ms)" and "S \<subseteq> set ms" and "m \<in> set ms"
  shows "memory_id m \<in> memory_id ` S \<longleftrightarrow> m \<in> S"
proof -
  from assms(1) have "inj_on memory_id (set ms)" by (simp add: distinct_map)
  with assms(2,3) show ?thesis by (auto dest: inj_onD)
qed

lemma cleanup_memories_eq:
  assumes dist: "distinct (map memory_id (memories db))"
    and over: "\<not> int (length (filter (\<lambda>m. playerId m = aid) (memories db))) \<le> mx"
  shows "memories (fst (cleanupMemories ar dn aid db mx mk))
           = filter (\<lambda>m. \<not> (m \<in> set (toDelete ar dn aid mx db) \<and> importance m < mk)) (memories db)"
    and "snd (cleanupMemories ar dn aid db mx mk)
           = length (filter (\<lambda>m. importance m < mk) (toDelete ar dn aid mx db))"
proof -
  let ?S = "set (filter (\<lambda>m. importance m < mk) (toDelete ar dn aid mx db))"
  have sub: "?S \<subseteq> set (memories db)" using toDelete_subset [of ar dn aid mx db] by auto
  have "filter (\<lambda>d. memory_id d \<notin> memory_id ` ?S) (memories db)
          = filter (\<lambda>m. m \<notin> ?S) (memories db)"
    by (rule filter_cong [OF refl]) (simp only: distinct_ids_mem [OF dist sub])
  with over show "memories (fst (cleanupMemories ar dn aid db mx mk))
           = filter (\<lambda>m. \<not> (m \<in> set (toDelete ar dn aid mx db) \<and> importance m < mk)) (memories db)"
    by (simp add: cleanupMemories_def Let_def fold_cleanup)
  from over show "snd (cleanupMemories ar dn aid db mx mk)
           = length (filter (\<lambda>m. importance m < mk) (toDelete ar dn aid mx db))"
    by (simp add: cleanupMemories_def Let_def fold_cleanup)
qed


text \<open>
  C8. With distinct document ids in the \<open>memories\<close> table, and the score of a memory being
  \<open>importance + (Date.now() - lastAccess) / 30 days\<close> as the arithmetic \<open>ar\<close> of the code
  computes it: when the agent's memory count is at most \<open>maxCount\<close>, \<open>cleanupMemories\<close>
  returns the table unchanged and 0. Otherwise the memories considered (\<open>toDelete\<close>) are
  memories of this agent, number \<open>count - maxCount\<close> (for non-negative \<open>maxCount\<close>), are in
  ascending order of score, and each has a score no larger than that of any of the agent's
  memories not considered; the memories deleted are exactly the considered ones with
  importance below \<open>minImportanceToKeep\<close>, and their number is returned and is at most
  \<open>count - maxCount\<close>. In every case a memory with importance at least \<open>minImportanceToKeep\<close>
  stays in the table.
\<close>

theorem cleanupMemories_safety_valve:
  assumes dist: "distinct (map memory_id (memories db))"
  shows
    "(memory_count aid db \<le> maxCount \<longrightarrow>
        cleanupMemories ar dn aid db maxCount minKeep = (db, 0))
   \<and> (\<not> memory_count aid db \<le> maxCount \<longrightarrow>
        memories (fst (cleanupMemories ar dn aid db maxCount minKeep))
          = filter (\<lambda>m. \<not> (m \<in> set (toDelete ar dn aid maxCount db) \<and> importance m < minKeep))
              (memories db)
      \<and> snd (cleanupMemories ar dn aid db maxCount minKeep)
          = length (filter (\<lambda>m. importance m < minKeep) (toDelete ar dn aid maxCount db))
      \<and> int (snd (cleanupMemories ar dn aid db maxCount minKeep)) \<le> memory_count aid db - maxCount)
   \<and> (\<not> memory_count aid db \<le> maxCount \<and> 0 \<le> maxCount \<longrightarrow>
        int (length (toDelete ar dn aid maxCount db)) = memory_count aid db - maxCount)
   \<and> set (toDelete ar dn aid maxCount db) \<subseteq> {m \<in> set (memories db). playerId m = aid}
   \<and> sorted (map (\<lambda>m. fadd ar (importance m)
                        (fdiv ar (fsub ar (real_of_int dn) (real_of_int (lastAccess m)))
                           (30 * 24 * 60 * 60 * 1000)))
               (toDelete ar dn aid maxCount db))
   \<and> (\<forall>a \<in> set (toDelete ar dn aid maxCount db). \<forall>b \<in> set (memories db).
        playerId b = aid \<and> b \<notin> set (toDelete ar dn aid maxCount db) \<longrightarrow>
        fadd ar (importance a)
          (fdiv ar (fsub ar (real_of_int dn) (real_of_int (lastAccess a)))
             (30 * 24 * 60 * 60 * 1000))
        \<le> fadd ar (importance b)
            (fdiv ar (fsub ar (real_of_int dn) (real_of_int (lastAccess b)))
               (30 * 24 * 60 * 60 * 1000)))
   \<and> (\<forall>m \<in> set (memories db). minKeep \<le> importance m \<longrightarrow>
        m \<in> set (memories (fst (cleanupMemories ar dn aid db maxCount minKeep))))"
proof (intro conjI impI ballI)
  assume "memory_count aid db \<le> maxCount"
  then show "cleanupMemories ar dn aid db maxCount minKeep = (db, 0)"
    by (simp add: cleanupMemories_def memory_count_def)
next
  assume over: "\<not> memory_count aid db \<le> maxCount"
  then have over': "\<not> int (length (filter (\<lambda>m. playerId m = aid) (memories db))) \<le> maxCount"
    by (simp add: memory_count_def)
  note eq = cleanup_memories_eq [OF dist over', of ar dn minKeep]
  show "memories (fst (cleanupMemories ar dn aid db maxCount minKeep))
          = filter (\<lambda>m. \<not> (m \<in> set (toDelete ar dn aid maxCount db) \<and> importance m < minKeep))
              (memories db)"
    by (rule eq(1))
  show "snd (cleanupMemories ar dn aid db maxCount minKeep)
          = length (filter (\<lambda>m. importance m < minKeep) (toDelete ar dn aid maxCount db))"
    by (rule eq(2))
  have "length (filter (\<lambda>m. importance m < minKeep) (toDelete ar dn aid maxCount db))
          \<le> length (toDelete ar dn aid maxCount db)" by (rule length_filter_le)
  also have "\<dots> \<le> nat (memory_count aid db - maxCount)"
    by (simp add: toDelete_length memory_count_def)
  finally show "int (snd (cleanupMemories ar dn aid db maxCount minKeep))
                  \<le> memory_count aid db - maxCount"
    using over by (simp add: eq(2))
next
  assume "\<not> memory_count aid db \<le> maxCount \<and> 0 \<le> maxCount"
  then show "int (length (toDelete ar dn aid maxCount db)) = memory_count aid db - maxCount"
    unfolding toDelete_length memory_count_def by linarith
next
  show "set (toDelete ar dn aid maxCount db) \<subseteq> {m \<in> set (memories db). playerId m = aid}"
    by (rule toDelete_subset)
next
  have "sorted (map (cleanupScore ar dn) (toDelete ar dn aid maxCount db))"
    by (rule toDelete_sorted)
  then show "sorted (map (\<lambda>m. fadd ar (importance m)
                        (fdiv ar (fsub ar (real_of_int dn) (real_of_int (lastAccess m)))
                           (30 * 24 * 60 * 60 * 1000)))
               (toDelete ar dn aid maxCount db))"
    unfolding cleanupScore_def .
next
  fix a b
  assume "a \<in> set (toDelete ar dn aid maxCount db)" and "b \<in> set (memories db)"
    and "playerId b = aid \<and> b \<notin> set (toDelete ar dn aid maxCount db)"
  then have "cleanupScore ar dn a \<le> cleanupScore ar dn b"
    by (simp add: toDelete_lowest)
  then show "fadd ar (importance a)
          (fdiv ar (fsub ar (real_of_int dn) (real_of_int (lastAccess a)))
             (30 * 24 * 60 * 60 * 1000))
        \<le> fadd ar (importance b)
            (fdiv ar (fsub ar (real_of_int dn) (real_of_int (lastAccess b)))
               (30 * 24 * 60 * 60 * 1000))"
    unfolding cleanupScore_def .
next
  fix m
  assume m: "m \<in> set (memories db)" and keep: "minKeep \<le> importance m"
  show "m \<in> set (memories (fst (cleanupMemories ar dn aid db maxCount minKeep)))"
  proof (cases "int (length (filter (\<lambda>m. playerId m = aid) (memories db))) \<le> maxCount")
    case True
    with m show ?thesis by (simp add: cleanupMemories_def)
  next
    case False
    from m keep show ?thesis
      by (simp add: cleanup_memories_eq(1) [OF dist False])
  qed
qed


text \<open>
  In the example the least important memory of agent 3 is the oldest: its age lifts its
  score to 4, above the scores 2.5 and 3.5 of memories 3 and 5, so with \<open>maxCount = 2\<close> it is
  not considered and stays, although its importance 1 is below \<open>minImportanceToKeep = 3\<close>.
  Every number of the example is a double, and every operation on them is exact in doubles.
\<close>

lemma example_toDelete:
  "toDelete exact 7776000000 ''3'' 2 example_memories =
     [example_memory 3 ''3'' 2.5 7776000000, example_memory 5 ''3'' 3.5 7776000000]"
  by (simp add: toDelete_def example_memories_def example_memory_def cleanupScore_def exact_def
      Let_def)

lemma example_cleanup:
  "cleanupMemories exact 7776000000 ''3'' example_memories 2 3 =
     (\<lparr> memories = [example_memory 1 ''3'' 1 0, example_memory 2 ''3'' 5 7776000000,
                    example_memory 4 ''9'' 0 0, example_memory 5 ''3'' 3.5 7776000000],
        memoryEmbeddings = [101, 102, 104, 105] \<rparr>, 1)"
  by (simp add: cleanupMemories_def example_toDelete)
     (simp add: example_memories_def example_memory_def deleteMemory_def)

theorem cleanupMemories_safety_valve_witness:
  "distinct (map memory_id (memories example_memories))
   \<and> \<not> memory_count ''3'' example_memories \<le> 2
   \<and> toDelete exact 7776000000 ''3'' 2 example_memories =
       [example_memory 3 ''3'' 2.5 7776000000, example_memory 5 ''3'' 3.5 7776000000]
   \<and> cleanupMemories exact 7776000000 ''3'' example_memories 2 3 =
       (\<lparr> memories = [example_memory 1 ''3'' 1 0, example_memory 2 ''3'' 5 7776000000,
                      example_memory 4 ''9'' 0 0, example_memory 5 ''3'' 3.5 7776000000],
          memoryEmbeddings = [101, 102, 104, 105] \<rparr>, 1)
   \<and> int (length (toDelete exact 7776000000 ''3'' 2 example_memories)) = 2
   \<and> cleanupScore exact 7776000000 (example_memory 5 ''3'' 3.5 7776000000)
       \<le> cleanupScore exact 7776000000 (example_memory 1 ''3'' 1 0)
   \<and> example_memory 5 ''3'' 3.5 7776000000
       \<in> set (memories (fst (cleanupMemories exact 7776000000 ''3'' example_memories 2 3)))
   \<and> cleanupMemories exact 7776000000 ''3'' example_memories 4 3 = (example_memories, 0)"
proof -
  let ?m1 = "example_memory 1 ''3'' 1 0"
  let ?m5 = "example_memory 5 ''3'' 3.5 7776000000"
  have d: "distinct (map memory_id (memories example_memories))"
    by (simp add: example_memories_def example_memory_def)
  have c: "memory_count ''3'' example_memories = 4"
    by (simp add: memory_count_def example_memories_def example_memory_def)
  have m5: "?m5 \<in> set (memories example_memories)" "(3::real) \<le> importance ?m5"
    by (simp_all add: example_memories_def example_memory_def)
  have m1: "?m1 \<in> set (memories example_memories)" "playerId ?m1 = ''3''"
    by (simp_all add: example_memories_def example_memory_def)
  have td5: "?m5 \<in> set (toDelete exact 7776000000 ''3'' 2 example_memories)"
    by (simp add: example_toDelete)
  have td1: "?m1 \<notin> set (toDelete exact 7776000000 ''3'' 2 example_memories)"
    by (simp add: example_toDelete example_memory_def)
  note t1 = cleanupMemories_safety_valve [OF d, where aid = "''3''" and maxCount = 2
      and minKeep = 3 and dn = 7776000000 and ar = exact]
  note t2 = cleanupMemories_safety_valve [OF d, where aid = "''3''" and maxCount = 4
      and minKeep = 3 and dn = 7776000000 and ar = exact]
  from t1 c have len: "int (length (toDelete exact 7776000000 ''3'' 2 example_memories)) = 2"
    by simp
  from t1 td5 m1 td1
  have "fadd exact (importance ?m5)
          (fdiv exact (fsub exact (real_of_int 7776000000) (real_of_int (lastAccess ?m5)))
             (30 * 24 * 60 * 60 * 1000))
        \<le> fadd exact (importance ?m1)
            (fdiv exact (fsub exact (real_of_int 7776000000) (real_of_int (lastAccess ?m1)))
               (30 * 24 * 60 * 60 * 1000))"
    by blast
  then have low: "cleanupScore exact 7776000000 ?m5 \<le> cleanupScore exact 7776000000 ?m1"
    unfolding cleanupScore_def .
  from t1 m5 have kept: "?m5
       \<in> set (memories (fst (cleanupMemories exact 7776000000 ''3'' example_memories 2 3)))"
    by blast
  from t2 c have none: "cleanupMemories exact 7776000000 ''3'' example_memories 4 3
      = (example_memories, 0)"
    by simp
  from c have over: "\<not> memory_count ''3'' example_memories \<le> 2" by simp
  from d over example_toDelete example_cleanup len low kept none show ?thesis by blast
qed


section \<open>Agent messages\<close>

text \<open>
  C9 (as amended). For an agent of the world whose \<open>conversationId\<close> is set,
  \<open>agentSendMessage\<close> succeeds whatever the conversations of the world are, and leaves
  them all unchanged. It appends the message row and sets the agent's \<open>lastActivity\<close>; when
  the \<open>leaveConversation\<close> flag is passed as true it also clears the agent's
  \<open>conversationId\<close> and sets the agent's status to \<open>Idle\<close>.
\<close>

theorem agentSendMessage_frame:
  assumes "map_of (agents w) aid = Some a" and "truthy_str (conversationId a)"
  shows "handleAgentSendMessage dn db w aid txt uuid leaveFlag =
           Inr (db @ [\<lparr> doc_conversationId = the (conversationId a), doc_messageUuid = uuid,
                        doc_author = player.id a, doc_text = txt \<rparr>],
                w\<lparr>agents := AList.update aid
                     (if leaveFlag = Some True
                      then a\<lparr>conversationId := None, player.status := Idle, lastActivity := dn\<rparr>
                      else a\<lparr>lastActivity := dn\<rparr>) (agents w)\<rparr>)
       \<and> conversations (snd (projr (handleAgentSendMessage dn db w aid txt uuid leaveFlag)))
           = conversations w"
  using assms
  by (cases leaveFlag)
     (auto simp add: handleAgentSendMessage_def sendMessage_def leaveConversation_def Let_def)


theorem agentSendMessage_frame_witness:
  "map_of (agents agent_world) ''3'' = Some talking_agent
   \<and> truthy_str (conversationId talking_agent)
   \<and> handleAgentSendMessage 5000 [] agent_world ''3'' ''hi'' ''u9'' None =
       Inr ([\<lparr> doc_conversationId = ''7'', doc_messageUuid = ''u9'', doc_author = ''3'',
                 doc_text = ''hi'' \<rparr>],
            agent_world\<lparr>agents := [(''3'', talking_agent\<lparr>lastActivity := 5000\<rparr>)]\<rparr>)
   \<and> conversations (snd (projr (handleAgentSendMessage 5000 [] agent_world ''3'' ''hi'' ''u9'' None)))
       = [(''7'', ended_chat)]"
proof -
  have h1: "map_of (agents agent_world) ''3'' = Some talking_agent"
    by (simp add: agent_world_def)
  have h2: "truthy_str (conversationId talking_agent)"
    by (simp add: talking_agent_def truthy_str_def)
  have id3: "player.id talking_agent = ''3''" "conversationId talking_agent = Some ''7''"
    by (simp_all add: talking_agent_def Agent_create_def)
  from agentSendMessage_frame [OF h1 h2, of 5000 "[]" "''hi''" "''u9''" None] h1 h2 id3
  show ?thesis by (simp add: agent_world_def)
qed

text \<open>
  The claim as stated lists \<open>lastActivity\<close> and \<open>conversationId\<close> as the only fields of the
  agent that change; with the flag passed, the status changes too.
\<close>

theorem agentSendMessage_counterexample:
  "truthy_str (conversationId talking_agent)
   \<and> \<not> isl (sendMessage 5000 [] talking_agent ''bye'' ''u9'' (Some True))
   \<and> snd (projr (sendMessage 5000 [] talking_agent ''bye'' ''u9'' (Some True)))
       \<noteq> talking_agent\<lparr>lastActivity := 5000, conversationId := None\<rparr>
   \<and> player.status talking_agent = Talking
   \<and> player.status (snd (projr (sendMessage 5000 [] talking_agent ''bye'' ''u9'' (Some True)))) = Idle"
  by (simp add: talking_agent_def Agent_create_def sendMessage_def truthy_str_def
      leaveConversation_def)


section \<open>Waiting conversations\<close>

lemma conversations_fold_setConversationId [simp]:
  "conversations (fold (\<lambda>p. setConversationId p v) ps w) = conversations w"
  by (induction ps arbitrary: w) simp_all

lemma Conversation_tick_not_active:
  "conversation.status c \<noteq> Active \<Longrightarrow> Conversation_tick now c = c"
  by (simp add: Conversation_tick_def)

lemma id_Conversation_tick [simp]:
  "conversation.id (Conversation_tick now c) = conversation.id c"
  by (simp add: Conversation_tick_def Let_def)

lemma list_all_update:
  "list_all P al \<Longrightarrow> P (k, v) \<Longrightarrow> list_all P (AList.update k v al)"
  by (induction al) auto

lemma wf_conversations_update:
  "wf_conversations w \<Longrightarrow> conversation.id c = k \<Longrightarrow>
   wf_conversations (w\<lparr>conversations := AList.update k c (conversations w)\<rparr>)"
  by (simp add: wf_conversations_def distinct_update list_all_update)

lemma wf_conversations_endConversation:
  assumes wf: "wf_conversations w"
  shows "wf_conversations (endConversation dn w k)"
proof (cases "map_of (conversations w) k")
  case None
  with wf show ?thesis by (simp add: endConversation_def)
next
  case (Some c)
  from wf have "distinct (map fst (AList.delete k (conversations w)))"
    by (simp add: wf_conversations_def distinct_delete)
  moreover have "list_all (\<lambda>(k, c). conversation.id c = k) (AList.delete k (conversations w))"
    using wf by (auto simp add: wf_conversations_def AList.delete_eq list_all_iff)
  ultimately show ?thesis
    using Some by (simp add: endConversation_def Let_def wf_conversations_def)
qed

lemma wf_conversations_lookup:
  "wf_conversations w \<Longrightarrow> map_of (conversations w) k = Some c \<Longrightarrow> conversation.id c = k"
  by (auto simp add: wf_conversations_def list_all_iff dest: map_of_SomeD)

lemma map_of_endConversation_other:
  "k' \<noteq> k \<Longrightarrow> map_of (conversations (endConversation dn w k')) k = map_of (conversations w) k"
  by (simp add: endConversation_def Let_def split: option.splits)

lemma tickConversation_keeps_waiting:
  assumes wf: "wf_conversations w"
    and look: "map_of (conversations w) k = Some c"
    and wait: "conversation.status c = Waiting"
  shows "wf_conversations (tickConversation dn now k' w) \<and>
         map_of (conversations (tickConversation dn now k' w)) k = Some c"
proof (cases "map_of (conversations w) k'")
  case None
  with wf look show ?thesis by (simp add: tickConversation_def)
next
  case (Some c0)
  let ?c' = "Conversation_tick now c0"
  let ?w' = "w\<lparr>conversations := AList.update k' ?c' (conversations w)\<rparr>"
  have idc: "conversation.id ?c' = k'"
    using wf Some by (simp add: wf_conversations_lookup)
  have wf': "wf_conversations ?w'"
    using wf idc by (rule wf_conversations_update)
  show ?thesis
  proof (cases "k' = k")
    case True
    with Some look have "c0 = c" by simp
    with wait have same: "?c' = c" by (simp add: Conversation_tick_not_active)
    with wait have nf: "\<not> isFinished ?c'" by (simp add: isFinished_def)
    have "tickConversation dn now k' w = ?w'"
      using Some nf by (simp add: tickConversation_def Let_def)
    with wf' same True show ?thesis by (simp add: update_conv')
  next
    case False
    have look': "map_of (conversations ?w') k = Some c"
      using look False by (simp add: update_conv')
    show ?thesis
    proof (cases "isFinished ?c'")
      case True
      then have "tickConversation dn now k' w = endConversation dn ?w' k'"
        using Some idc by (simp add: tickConversation_def Let_def)
      with wf' look' False show ?thesis
        by (simp add: wf_conversations_endConversation map_of_endConversation_other)
    next
      case False
      then have "tickConversation dn now k' w = ?w'"
        using Some by (simp add: tickConversation_def Let_def)
      with wf' look' show ?thesis by simp
    qed
  qed
qed

lemma fold_tickConversation_keeps_waiting:
  "wf_conversations w \<Longrightarrow> map_of (conversations w) k = Some c \<Longrightarrow>
   conversation.status c = Waiting \<Longrightarrow>
   wf_conversations (fold (tickConversation dn now) ks w) \<and>
   map_of (conversations (fold (tickConversation dn now) ks w)) k = Some c"
proof (induction ks arbitrary: w)
  case Nil
  then show ?case by simp
next
  case (Cons k' ks)
  from tickConversation_keeps_waiting [OF Cons.prems, of dn now k']
  have "wf_conversations (tickConversation dn now k' w)"
    and "map_of (conversations (tickConversation dn now k' w)) k = Some c" by simp_all
  from Cons.IH [OF this Cons.prems(3)] show ?case by simp
qed

lemma World_tick_keeps_waiting:
  assumes "wf_conversations w" "map_of (conversations w) k = Some c"
    "conversation.status c = Waiting"
  shows "map_of (conversations (World_tick ar dn now w)) k = Some c"
proof -
  let ?w2 = "w\<lparr>players := map (\<lambda>(k, p). (k, Player_tick ar dn now p)) (players w),
               agents := map (\<lambda>(k, a). (k, Agent_tick ar dn now a)) (agents w)\<rparr>"
  have "wf_conversations ?w2" "map_of (conversations ?w2) k = Some c"
    using assms by (simp_all add: wf_conversations_def)
  from fold_tickConversation_keeps_waiting [OF this assms(3), of dn now "map fst (conversations w)"]
  show ?thesis by (simp add: World_tick_def Let_def)
qed


text \<open>
  C10 (as amended). \<open>Conversation.tick\<close> returns a conversation that is not \<open>Active\<close>
  unchanged, for every \<open>now\<close>. In a world whose conversation map is keyed by conversation id,
  a \<open>Waiting\<close> conversation is still in the map, unchanged, after \<open>World.tick\<close>. On a
  \<open>Waiting\<close> conversation \<open>addMessage\<close> fails and \<open>finishSpeaking\<close>, where it succeeds, leaves
  the status \<open>Waiting\<close>. Of all calls on a \<open>Waiting\<close> conversation, only \<open>archive\<close>,
  \<open>acceptInvite\<close>, \<open>rejectInvite\<close> and \<open>leave\<close> can return it with another status; \<open>archive\<close>,
  which \<open>World.endConversation\<close> calls, always does.
\<close>

theorem waiting_conversation_never_times_out:
  "(conversation.status c \<noteq> Active \<longrightarrow> Conversation_tick now c = c)
   \<and> (wf_conversations w \<and> map_of (conversations w) k = Some c \<and>
        conversation.status c = Waiting \<longrightarrow>
        map_of (conversations (World_tick ar dn now w)) k = Some c)
   \<and> (conversation.status c = Waiting \<longrightarrow>
        isl (addMessage dn db c p txt uuid) \<and>
        (\<forall>c'. finishSpeaking dn c p = Inr c' \<longrightarrow> conversation.status c' = Waiting))
   \<and> (conversation.status c = Waiting \<and> callConversation dn db call c = Inr c1 \<and>
        conversation.status c1 \<noteq> Waiting \<longrightarrow>
        call = Archive \<or> (\<exists>q. call = AcceptInvite q) \<or> (\<exists>q. call = RejectInvite q) \<or>
        (\<exists>q. call = Leave q))
   \<and> conversation.status (Conversation_archive dn c) = Ended"
proof (intro conjI impI)
  assume "conversation.status c \<noteq> Active"
  then show "Conversation_tick now c = c" by (rule Conversation_tick_not_active)
next
  assume "wf_conversations w \<and> map_of (conversations w) k = Some c \<and>
        conversation.status c = Waiting"
  then show "map_of (conversations (World_tick ar dn now w)) k = Some c"
    by (simp add: World_tick_keeps_waiting)
next
  assume "conversation.status c = Waiting"
  then show "isl (addMessage dn db c p txt uuid)" by (simp add: addMessage_def)
next
  assume "conversation.status c = Waiting"
  then show "\<forall>c'. finishSpeaking dn c p = Inr c' \<longrightarrow> conversation.status c' = Waiting"
    by (auto simp add: finishSpeaking_def split: if_splits)
next
  assume h: "conversation.status c = Waiting \<and> callConversation dn db call c = Inr c1 \<and>
        conversation.status c1 \<noteq> Waiting"
  show "call = Archive \<or> (\<exists>q. call = AcceptInvite q) \<or> (\<exists>q. call = RejectInvite q) \<or>
        (\<exists>q. call = Leave q)"
  proof (cases call)
    case (AddMessage au body u)
    from h have "isl (addMessage dn db c au body u)" by (simp add: addMessage_def)
    with h AddMessage show ?thesis by (cases "addMessage dn db c au body u") simp_all
  next
    case (FinishSpeaking q)
    with h show ?thesis by (auto simp add: finishSpeaking_def split: if_splits)
  next
    case (Tick t)
    from h have "Conversation_tick t c = c" by (simp add: Conversation_tick_not_active)
    with h Tick show ?thesis by auto
  qed simp_all
next
  show "conversation.status (Conversation_archive dn c) = Ended"
    by (simp add: Conversation_archive_def)
qed


theorem waiting_conversation_never_times_out_witness:
  "wf_conversations (fst (projr (startConversation 1000 two_players ''0'' ''1'')))
   \<and> map_of (conversations (fst (projr (startConversation 1000 two_players ''0'' ''1'')))) ''2''
       = Some (Conversation_create 1000 ''2'' ''0'' [''0'', ''1''])
   \<and> conversation.status (Conversation_create 1000 ''2'' ''0'' [''0'', ''1'']) = Waiting
   \<and> Conversation_tick 100000000 (Conversation_create 1000 ''2'' ''0'' [''0'', ''1''])
       = Conversation_create 1000 ''2'' ''0'' [''0'', ''1'']
   \<and> map_of (conversations
        (World_tick exact 5000 100000000 (fst (projr (startConversation 1000 two_players ''0'' ''1'')))))
        ''2'' = Some (Conversation_create 1000 ''2'' ''0'' [''0'', ''1''])
   \<and> isl (addMessage 5000 [] (Conversation_create 1000 ''2'' ''0'' [''0'', ''1'']) ''0'' ''hi'' ''u1'')
   \<and> callConversation 5000 [] (RejectInvite ''1'') (Conversation_create 1000 ''2'' ''0'' [''0'', ''1''])
       = Inr ((Conversation_create 1000 ''2'' ''0'' [''0'', ''1''])
                \<lparr>invited := [], conversation.status := Ended, ended := Some 5000\<rparr>)
   \<and> (\<exists>q. RejectInvite ''1'' = RejectInvite q)"
proof -
  let ?w = "fst (projr (startConversation 1000 two_players ''0'' ''1''))"
  let ?c = "Conversation_create 1000 ''2'' ''0'' [''0'', ''1'']"
  let ?c1 = "?c\<lparr>invited := [], conversation.status := Ended, ended := Some 5000\<rparr>"
  have wf: "wf_conversations ?w"
    by (simp add: started_eq wf_conversations_def Conversation_create_def)
  have look: "map_of (conversations ?w) ''2'' = Some ?c" by (simp add: started_eq)
  have st: "conversation.status ?c = Waiting" by (simp add: Conversation_create_def)
  have rj: "callConversation 5000 [] (RejectInvite ''1'') ?c = Inr ?c1"
    by (simp add: rejectInvite_def Conversation_create_def)
  have st1: "conversation.status ?c1 \<noteq> Waiting" by simp
  note t = waiting_conversation_never_times_out [where c = ?c and w = ?w and k = "''2''"
      and ar = exact and now = 100000000 and dn = 5000 and db = "[]" and p = "''0''"
      and ?txt = "''hi''" and uuid = "''u1''" and call = "RejectInvite ''1''" and ?c1.0 = ?c1]
  from t wf look st have a: "Conversation_tick 100000000 ?c = ?c"
    and b: "map_of (conversations (World_tick exact 5000 100000000 ?w)) ''2'' = Some ?c"
    and c: "isl (addMessage 5000 [] ?c ''0'' ''hi'' ''u1'')"
    by simp_all
  from t st rj st1 have d: "\<exists>q. RejectInvite ''1'' = RejectInvite q" by blast
  from wf look st a b c rj d show ?thesis by blast
qed


text \<open>
  The claim as stated fails on the conversation that \<open>startConversation\<close> makes for the two
  players: it is \<open>Waiting\<close>, and \<open>archive\<close>, which tests no status, returns it \<open>Ended\<close>;
  \<open>World.endConversation\<close>, which calls \<open>archive\<close>, drops it from the world. Neither is a
  call of \<open>acceptInvite\<close>, \<open>rejectInvite\<close> or \<open>leave\<close>.
\<close>

theorem waiting_conversation_counterexample:
  "map_of (conversations (fst (projr (startConversation 1000 two_players ''0'' ''1'')))) ''2''
       = Some (Conversation_create 1000 ''2'' ''0'' [''0'', ''1''])
   \<and> conversation.status (Conversation_create 1000 ''2'' ''0'' [''0'', ''1'']) = Waiting
   \<and> callConversation 5000 [] Archive (Conversation_create 1000 ''2'' ''0'' [''0'', ''1''])
       = Inr (Conversation_archive 5000 (Conversation_create 1000 ''2'' ''0'' [''0'', ''1'']))
   \<and> conversation.status
        (Conversation_archive 5000 (Conversation_create 1000 ''2'' ''0'' [''0'', ''1''])) = Ended
   \<and> map_of (conversations
        (endConversation 5000 (fst (projr (startConversation 1000 two_players ''0'' ''1''))) ''2''))
        ''2'' = None"
  by (simp add: started_eq Conversation_archive_def Conversation_create_def endConversation_def
      setConversationId_def Player_create_def Let_def)



end
